theory Spec2Isabelle
  imports Complex_Main "HOL-Library.AList"
begin

section \<open>The natural-language-to-chart pipeline of \<^verbatim>\<open>getStatistic.ts\<close>\<close>

text \<open>
  The development embeds \<^verbatim>\<open>src/back/modules/dataAnal/getStatistic.ts\<close>:
  the response validator \<^verbatim>\<open>validateResponse\<close>, the three error-response
  constructors, \<^verbatim>\<open>makeQuery\<close>, \<^verbatim>\<open>generateSqlQuery\<close>,
  \<^verbatim>\<open>generateAnalysis\<close> with its retry loop, and the orchestrator
  \<^verbatim>\<open>analyzeStatisticalQuestion\<close>.

  The validator takes a value of TypeScript type \<^verbatim>\<open>any\<close>, so the embedding works on
  untyped JavaScript values. Exceptions are values of a sum type (\<open>Inl\<close> is a thrown
  error), a rejected promise is the same \<open>Inl\<close>, and the calls made to the language
  model and to the database are recorded in a log that is threaded through the functions.
  \<^verbatim>\<open>console.log\<close> and \<^verbatim>\<open>console.error\<close> have no effect on any result and are
  left out.

  What the embedding takes from the environment of the program:
  \<^item> the module is an ES module (it has \<^verbatim>\<open>import\<close> and \<^verbatim>\<open>export\<close>), so its code is
    strict;
  \<^item> a response is what \<^verbatim>\<open>JSON.parse\<close> returns, or the text itself: a tree without
    shared parts, so that the program's assignments into the response are updates of
    the tree;
  \<^item> \<^verbatim>\<open>output_text\<close> of a model response is a string, the rows of a query result are
    an array, and what a collaborator throws is an \<^verbatim>\<open>Error\<close> object.
\<close>

subsection \<open>JavaScript values\<close>

text \<open>
  A JavaScript number is an IEEE double. The program never does arithmetic on the numbers
  of a response: it tests them with \<^verbatim>\<open>isNaN\<close> and compares one of them with \<^verbatim>\<open>0\<close>.
  A number is therefore its exact value, or one of the three special values; \<^verbatim>\<open>-0\<close> is
  identified with \<^verbatim>\<open>0\<close> (the two are equal under \<^verbatim>\<open>===\<close>).
\<close>

datatype jsnum = NaN | PosInfinity | NegInfinity | Finite real

text \<open>
  Strings are byte strings holding the UTF-8 encoding of the JavaScript string. An object
  is the list of its own properties in insertion order; where a key occurs twice the first
  binding is the property. These are the values \<^verbatim>\<open>JSON.parse\<close> can return, and
  \<^verbatim>\<open>undefined\<close>, which a missing property reads as.
\<close>

datatype jsval =
    JUndefined
  | JNull
  | JBool bool
  | JNum jsnum
  | JStr string
  | JArr "jsval list"
  | JObj "(string \<times> jsval) list"

text \<open>
  The faults the engine itself raises in this program. Their message texts differ between
  engines, so the text is a parameter (\<open>typeErrorMessage\<close> below).
\<close>

datatype engine_fault =
    ReadOfNullish
  | WriteOnPrimitive
  | NotAFunction
  | NoPrimitiveValue

text \<open>A thrown \<^verbatim>\<open>Error\<close> object: its \<^verbatim>\<open>name\<close> and its \<^verbatim>\<open>message\<close>.\<close>

datatype js_error = JsError (err_name: string) (err_message: string)

text \<open>
  Built-ins of the language whose exact definition is outside the repository:
  the \<^verbatim>\<open>StringToNumber\<close> grammar behind \<^verbatim>\<open>Number(s)\<close>, the printing of a number,
  \<^verbatim>\<open>JSON.parse\<close> (\<open>None\<close> is a \<^verbatim>\<open>SyntaxError\<close>), \<^verbatim>\<open>String.prototype.toUpperCase\<close>,
  \<^verbatim>\<open>String.prototype.toLowerCase\<close> on text that has characters outside ASCII (the
  Unicode case tables), and the engine's message texts. A theorem that names no condition
  on them holds for all of them.
\<close>

record builtins =
  StringToNumber :: "string \<Rightarrow> jsnum"
  NumberToString :: "jsnum \<Rightarrow> string"
  JSON_parse :: "string \<Rightarrow> jsval option"
  toUpperCase :: "string \<Rightarrow> string"
  toLowerCaseUnicode :: "string \<Rightarrow> string"
  typeErrorMessage :: "engine_fault \<Rightarrow> string"

definition TypeError :: "builtins \<Rightarrow> engine_fault \<Rightarrow> js_error" where
  "TypeError b f = JsError ''TypeError'' (typeErrorMessage b f)"

definition Error :: "string \<Rightarrow> js_error" where
  "Error msg = JsError ''Error'' msg"

text \<open>\<^verbatim>\<open>!!v\<close>: the falsy values are undefined, null, false, 0, NaN and the empty string.\<close>

fun truthy :: "jsval \<Rightarrow> bool" where
  "truthy JUndefined = False"
| "truthy JNull = False"
| "truthy (JBool t) = t"
| "truthy (JNum n) = (n \<noteq> NaN \<and> n \<noteq> Finite 0)"
| "truthy (JStr s) = (s \<noteq> [])"
| "truthy (JArr xs) = True"
| "truthy (JObj kvs) = True"

fun isArray :: "jsval \<Rightarrow> bool" where
  "isArray (JArr xs) = True"
| "isArray v = False"

fun elems :: "jsval \<Rightarrow> jsval list" where
  "elems (JArr xs) = xs"
| "elems v = []"

fun is_string :: "jsval \<Rightarrow> bool" where
  "is_string (JStr s) = True"
| "is_string v = False"

fun is_nullish :: "jsval \<Rightarrow> bool" where
  "is_nullish JUndefined = True"
| "is_nullish JNull = True"
| "is_nullish v = False"

text \<open>
  \<^verbatim>\<open>v.k\<close> on a value that is neither null nor undefined, for the property names this
  module reads (interpretation, statistics, type, data, labels, values, colors,
  categories and the three label texts). An object yields its own property or undefined:
  none of these names is inherited from \<^verbatim>\<open>Object.prototype\<close>. Primitives and arrays
  have none of them, with one exception: an array inherits the method \<^verbatim>\<open>values\<close>. The
  program reads \<^verbatim>\<open>values\<close> only in \<^verbatim>\<open>!data.labels || !data.values || ...\<close> and in
  \<^verbatim>\<open>!data.categories || !data.values || ...\<close>, where on an array the first disjunct is
  already true and \<^verbatim>\<open>values\<close> is not evaluated.
\<close>

fun get_prop :: "jsval \<Rightarrow> string \<Rightarrow> jsval" where
  "get_prop (JObj kvs) k = (case map_of kvs k of Some v \<Rightarrow> v | None \<Rightarrow> JUndefined)"
| "get_prop v k = JUndefined"

text \<open>
  \<^verbatim>\<open>o.k = v\<close> on an object: an existing property keeps its place, a new one is added at
  the end. The program assigns to \<^verbatim>\<open>data\<close> and to elements of its arrays only after it
  has read an array out of \<^verbatim>\<open>data\<close>, and to \<^verbatim>\<open>statistics\<close> after it has read a
  string out of it, so the receiver is an object there (lemmas \<open>receiver_of_array\<close>
  and \<open>receiver_of_string\<close>).
\<close>

fun put :: "jsval \<Rightarrow> string \<Rightarrow> jsval \<Rightarrow> jsval" where
  "put (JObj kvs) k v = JObj (AList.update k v kvs)"
| "put r k v = r"

text \<open>\<^verbatim>\<open>xs[i]\<close> on an array: undefined out of range.\<close>

definition index :: "jsval list \<Rightarrow> nat \<Rightarrow> jsval" where
  "index xs i = (if i < length xs then xs ! i else JUndefined)"

subsection \<open>Strings\<close>

text \<open>\<^verbatim>\<open>s.includes(t)\<close>: \<open>t\<close> occurs in \<open>s\<close> as a contiguous substring.\<close>

fun includes_js :: "string \<Rightarrow> string \<Rightarrow> bool" where
  "includes_js [] t = (t = [])"
| "includes_js (c # cs) t = (take (length t) (c # cs) = t \<or> includes_js cs t)"

text \<open>
  \<^verbatim>\<open>s.toLowerCase()\<close>. A string is ASCII text when each of its bytes is below 128; on
  ASCII text the method replaces the letters A to Z by a to z and leaves every other
  character as it is. On text with characters outside ASCII the result is what the
  engine's Unicode tables give.
\<close>

definition lower_char :: "char \<Rightarrow> char" where
  "lower_char c =
     (case map_of (zip ''ABCDEFGHIJKLMNOPQRSTUVWXYZ'' ''abcdefghijklmnopqrstuvwxyz'') c of
        Some l \<Rightarrow> l
      | None \<Rightarrow> c)"

definition isASCII :: "string \<Rightarrow> bool" where
  "isASCII s = list_all (\<lambda>c. \<not> digit7 c) s"

definition toLowerCase :: "builtins \<Rightarrow> string \<Rightarrow> string" where
  "toLowerCase b s = (if isASCII s then map lower_char s else toLowerCaseUnicode b s)"

text \<open>
  The white space and line terminators that \<^verbatim>\<open>String.prototype.trim\<close> removes, each as
  its UTF-8 bytes: U+0009 to U+000D, U+0020, U+00A0, U+1680, U+2000 to U+200A, U+2028,
  U+2029, U+202F, U+205F, U+3000 and U+FEFF.
\<close>

definition white_space :: "string list" where
  "white_space =
     [[CHR 0x09], [CHR 0x0A], [CHR 0x0B], [CHR 0x0C], [CHR 0x0D], [CHR 0x20],
      [CHR 0xC2, CHR 0xA0],
      [CHR 0xE1, CHR 0x9A, CHR 0x80],
      [CHR 0xE2, CHR 0x80, CHR 0x80], [CHR 0xE2, CHR 0x80, CHR 0x81],
      [CHR 0xE2, CHR 0x80, CHR 0x82], [CHR 0xE2, CHR 0x80, CHR 0x83],
      [CHR 0xE2, CHR 0x80, CHR 0x84], [CHR 0xE2, CHR 0x80, CHR 0x85],
      [CHR 0xE2, CHR 0x80, CHR 0x86], [CHR 0xE2, CHR 0x80, CHR 0x87],
      [CHR 0xE2, CHR 0x80, CHR 0x88], [CHR 0xE2, CHR 0x80, CHR 0x89],
      [CHR 0xE2, CHR 0x80, CHR 0x8A],
      [CHR 0xE2, CHR 0x80, CHR 0xA8], [CHR 0xE2, CHR 0x80, CHR 0xA9],
      [CHR 0xE2, CHR 0x80, CHR 0xAF],
      [CHR 0xE2, CHR 0x81, CHR 0x9F],
      [CHR 0xE3, CHR 0x80, CHR 0x80],
      [CHR 0xEF, CHR 0xBB, CHR 0xBF]]"

text \<open>The length of the white-space token at the front of \<open>s\<close>, or 0.\<close>

definition leading :: "string list \<Rightarrow> string \<Rightarrow> nat" where
  "leading toks s =
     (case find (\<lambda>w. w \<noteq> [] \<and> take (length w) s = w) toks of
        None \<Rightarrow> 0
      | Some w \<Rightarrow> length w)"

function strip :: "string list \<Rightarrow> string \<Rightarrow> string" where
  "strip toks s = (if leading toks s = 0 then s else strip toks (drop (leading toks s) s))"
  by pat_completeness auto

lemma leading_positive: "0 < leading toks s \<Longrightarrow> 0 < length s"
  by (auto simp: leading_def find_Some_iff split: option.splits)

lemma strip_decreases: "0 < leading toks s \<Longrightarrow> length s - leading toks s < length s"
  using leading_positive [of toks s] by arith

termination strip
  by (relation "measure (\<lambda>(toks, s). length s)") (simp_all add: strip_decreases)

definition trimStart :: "string \<Rightarrow> string" where
  "trimStart s = strip white_space s"

definition trimEnd :: "string \<Rightarrow> string" where
  "trimEnd s = rev (strip (map rev white_space) (rev s))"

definition trim :: "string \<Rightarrow> string" where
  "trim s = trimEnd (trimStart s)"

text \<open>The decimal digits of a natural number, as in \<^verbatim>\<open>`Item ${idx}`\<close>.\<close>

fun show_nat :: "nat \<Rightarrow> string" where
  "show_nat n =
     (if n < 10 then [''0123456789'' ! n]
      else show_nat (n div 10) @ [''0123456789'' ! (n mod 10)])"

subsection \<open>Coercions\<close>

text \<open>The first error of a list of results, or all the values.\<close>

fun sequence_js :: "(js_error + 'a) list \<Rightarrow> js_error + 'a list" where
  "sequence_js [] = Inr []"
| "sequence_js (r # rs) =
     (case r of
        Inl e \<Rightarrow> Inl e
      | Inr x \<Rightarrow> (case sequence_js rs of Inl e \<Rightarrow> Inl e | Inr xs \<Rightarrow> Inr (x # xs)))"

fun join :: "string list \<Rightarrow> string" where
  "join [] = []"
| "join [s] = s"
| "join (s # t # ts) = s @ '','' @ join (t # ts)"

text \<open>
  \<^verbatim>\<open>ToString\<close>. An array is the join of its elements, null and undefined elements
  printing as the empty string. A plain object prints as \<^verbatim>\<open>[object Object]\<close> through
  the inherited \<^verbatim>\<open>toString\<close>; an own property of that name shadows the method and is not
  callable, and the conversion throws a \<^verbatim>\<open>TypeError\<close>.
\<close>

fun ToString :: "builtins \<Rightarrow> jsval \<Rightarrow> js_error + string" where
  "ToString b JUndefined = Inr ''undefined''"
| "ToString b JNull = Inr ''null''"
| "ToString b (JBool t) = Inr (if t then ''true'' else ''false'')"
| "ToString b (JNum n) = Inr (NumberToString b n)"
| "ToString b (JStr s) = Inr s"
| "ToString b (JArr xs) =
     map_sum id join
       (sequence_js (map (\<lambda>x. if is_nullish x then Inr [] else ToString b x) xs))"
| "ToString b (JObj kvs) =
     (if map_of kvs ''toString'' \<noteq> None then Inl (TypeError b NoPrimitiveValue)
      else Inr ''[object Object]'')"

text \<open>\<^verbatim>\<open>Number(v)\<close>: arrays and objects are converted through their string.\<close>

definition Number :: "builtins \<Rightarrow> jsval \<Rightarrow> js_error + jsnum" where
  "Number b v =
     (case v of
        JUndefined \<Rightarrow> Inr NaN
      | JNull \<Rightarrow> Inr (Finite 0)
      | JBool t \<Rightarrow> Inr (Finite (if t then 1 else 0))
      | JNum n \<Rightarrow> Inr n
      | JStr s \<Rightarrow> Inr (StringToNumber b s)
      | _ \<Rightarrow> map_sum id (StringToNumber b) (ToString b v))"

text \<open>
  \<^verbatim>\<open>c.toLowerCase()\<close> on an arbitrary value: only a string has the method.
\<close>

definition lowerCased :: "builtins \<Rightarrow> jsval \<Rightarrow> js_error + string" where
  "lowerCased b c =
     (case c of
        JStr s \<Rightarrow> Inr (toLowerCase b s)
      | JUndefined \<Rightarrow> Inl (TypeError b ReadOfNullish)
      | JNull \<Rightarrow> Inl (TypeError b ReadOfNullish)
      | _ \<Rightarrow> Inl (TypeError b NotAFunction))"

subsection \<open>The error responses\<close>

definition createErrorResponse :: "string \<Rightarrow> jsval" where
  "createErrorResponse message =
     JObj [(''interpretation'', JStr message),
           (''statistics'', JObj [(''type'', JStr ''pie_chart''),
              (''data'', JObj [(''labels'', JArr [JStr ''Error'']),
                               (''values'', JArr [JNum (Finite 100)])])])]"

definition createPieChartErrorResponse :: "string \<Rightarrow> jsval" where
  "createPieChartErrorResponse message =
     JObj [(''interpretation'', JStr message),
           (''statistics'', JObj [(''type'', JStr ''pie_chart''),
              (''data'', JObj [(''labels'', JArr [JStr ''Error'']),
                               (''values'', JArr [JNum (Finite 100)])])])]"

definition createWaterfallChartErrorResponse :: "string \<Rightarrow> jsval" where
  "createWaterfallChartErrorResponse message =
     JObj [(''interpretation'', JStr message),
           (''statistics'', JObj [(''type'', JStr ''waterfall_chart''),
              (''data'', JObj [(''categories'', JArr [JStr ''Start'', JStr ''Error'', JStr ''End'']),
                               (''values'', JArr [JNum (Finite 0), JNum (Finite 0),
                                                  JNum (Finite 0)])])])]"

subsection \<open>\<^verbatim>\<open>validateResponse\<close>\<close>

text \<open>
  \<^verbatim>\<open>data.values.map((val, idx) => (!isNaN(Number(val)) ? idx : null)).filter(idx => idx !== null)\<close>,
  the indices counted from \<open>idx\<close>. A coercion that throws ends the whole expression.
\<close>

fun validIndices :: "builtins \<Rightarrow> jsval list \<Rightarrow> nat \<Rightarrow> js_error + nat list" where
  "validIndices b [] idx = Inr []"
| "validIndices b (val # rest) idx =
     (case Number b val of
        Inl e \<Rightarrow> Inl e
      | Inr n \<Rightarrow>
          (case validIndices b rest (Suc idx) of
             Inl e \<Rightarrow> Inl e
           | Inr idxs \<Rightarrow> Inr (if n \<noteq> NaN then idx # idxs else idxs)))"

definition defaultColors :: "string list" where
  "defaultColors =
     [''#4299E1'', ''#48BB78'', ''#F56565'', ''#ED8936'',
      ''#9F7AEA'', ''#38B2AC'', ''#F687B3'', ''#ECC94B'']"

text \<open>Lines 105 to 119: \<^verbatim>\<open>if (!data.colors) data.colors = data.labels.map(...)\<close>.\<close>

definition addDefaultColors :: "jsval \<Rightarrow> jsval" where
  "addDefaultColors data =
     (if \<not> truthy (get_prop data ''colors'')
      then put data ''colors''
             (JArr (map (\<lambda>i. JStr (defaultColors ! (i mod length defaultColors)))
                      [0..<length (elems (get_prop data ''labels''))]))
      else data)"

text \<open>The pie branch of the \<^verbatim>\<open>try\<close> block (lines 74 to 119).\<close>

definition pie_branch :: "builtins \<Rightarrow> jsval \<Rightarrow> js_error + jsval" where
  "pie_branch b response =
     (let statistics = get_prop response ''statistics'';
          data = get_prop statistics ''data'';
          labels = get_prop data ''labels'';
          values = get_prop data ''values''
      in
      if \<not> truthy labels \<or> \<not> truthy values \<or> \<not> isArray labels \<or> \<not> isArray values
      then Inr (createPieChartErrorResponse
                  ''Invalid pie chart data: labels and values must be arrays'')
      else
        case validIndices b (elems values) 0 of
          Inl e \<Rightarrow> Inl e
        | Inr idxs \<Rightarrow>
            if length idxs = 0
            then Inr (createPieChartErrorResponse
                        ''Invalid pie chart data: no valid numeric values'')
            else
              (case sequence_js (map (\<lambda>idx. Number b (index (elems values) idx)) idxs) of
                 Inl e \<Rightarrow> Inl e
               | Inr nums \<Rightarrow>
                   let data1 = put data ''labels''
                                 (JArr (map (\<lambda>idx. index (elems labels) idx) idxs));
                       data2 = put data1 ''values'' (JArr (map JNum nums));
                       data3 = addDefaultColors data2
                   in Inr (put response ''statistics'' (put statistics ''data'' data3))))"

text \<open>
  Lines 153 to 170, on the kept categories and the kept values: the first category
  becomes \<^verbatim>\<open>Start\<close> and the last one \<^verbatim>\<open>End\<close> under the source's conditions.
  \<^verbatim>\<open>&&\<close> does not evaluate its right operand when the left one is false.
\<close>

definition ensureStartEnd :: "builtins \<Rightarrow> jsval list \<Rightarrow> jsnum list \<Rightarrow> js_error + jsval list" where
  "ensureStartEnd b categories nums =
     (if length categories \<ge> 2 then
        case (if take 1 nums = [Finite 0]
              then map_sum id (\<lambda>l. \<not> includes_js l ''start'') (lowerCased b (index categories 0))
              else Inr False) of
          Inl e \<Rightarrow> Inl e
        | Inr renameFirst \<Rightarrow>
            let categories1 = (if renameFirst then categories[0 := JStr ''Start''] else categories);
                lastIdx = length categories1 - 1
            in
            (case lowerCased b (index categories1 lastIdx) of
               Inl e \<Rightarrow> Inl e
             | Inr l \<Rightarrow>
                 Inr (if \<not> includes_js l ''end'' \<and> \<not> includes_js l ''total''
                      then categories1[lastIdx := JStr ''End'']
                      else categories1))
      else Inr categories)"

text \<open>
  Lines 147 to 149: \<^verbatim>\<open>validIndices.map(idx => data.categories[idx] || `Item ${idx}`)\<close>.
\<close>

definition keepCategories :: "jsval list \<Rightarrow> nat list \<Rightarrow> jsval list" where
  "keepCategories categories idxs =
     map (\<lambda>idx. let c = index categories idx
                in if truthy c then c else JStr (''Item '' @ show_nat idx)) idxs"

text \<open>\<^verbatim>\<open>if (!data.k) data.k = text\<close>.\<close>

definition defaultText :: "string \<Rightarrow> string \<Rightarrow> jsval \<Rightarrow> jsval" where
  "defaultText k txt data = (if \<not> truthy (get_prop data k) then put data k (JStr txt) else data)"

text \<open>The waterfall branch of the \<^verbatim>\<open>try\<close> block (lines 120 to 176).\<close>

definition waterfall_branch :: "builtins \<Rightarrow> jsval \<Rightarrow> js_error + jsval" where
  "waterfall_branch b response =
     (let statistics = get_prop response ''statistics'';
          data = get_prop statistics ''data'';
          categories = get_prop data ''categories'';
          values = get_prop data ''values''
      in
      if \<not> truthy categories \<or> \<not> truthy values \<or> \<not> isArray categories \<or> \<not> isArray values
      then Inr (createWaterfallChartErrorResponse
                  ''Invalid waterfall chart data: categories and values must be arrays'')
      else
        case validIndices b (elems values) 0 of
          Inl e \<Rightarrow> Inl e
        | Inr idxs \<Rightarrow>
            if length idxs < 2
            then Inr (createWaterfallChartErrorResponse
                        ''Invalid waterfall chart data: need at least 2 valid numeric values'')
            else
              (case sequence_js (map (\<lambda>idx. Number b (index (elems values) idx)) idxs) of
                 Inl e \<Rightarrow> Inl e
               | Inr nums \<Rightarrow>
                   let kept = keepCategories (elems categories) idxs
                   in
                   (case ensureStartEnd b kept nums of
                      Inl e \<Rightarrow> Inl e
                    | Inr renamed \<Rightarrow>
                        let data1 = put data ''categories'' (JArr renamed);
                            data2 = put data1 ''values'' (JArr (map JNum nums));
                            data3 = defaultText ''increaseLabelText'' ''Increase'' data2;
                            data4 = defaultText ''decreaseLabelText'' ''Decrease'' data3;
                            data5 = defaultText ''totalLabelText'' ''Total'' data4
                        in Inr (put response ''statistics'' (put statistics ''data'' data5)))))"

text \<open>
  \<^verbatim>\<open>response.interpretation = "..."\<close> (line 44). The module is an ES module, hence strict
  code, where the assignment throws on a primitive. An array accepts the property; it is
  not recorded here, because the array has no \<^verbatim>\<open>statistics\<close> and the next check
  replaces it by an error response.
\<close>

definition assignInterpretation :: "builtins \<Rightarrow> jsval \<Rightarrow> js_error + jsval" where
  "assignInterpretation b response =
     (case response of
        JObj kvs \<Rightarrow>
          Inr (put response ''interpretation''
                 (JStr ''Analysis generated but no interpretation provided.''))
      | JArr xs \<Rightarrow> Inr response
      | _ \<Rightarrow> Inl (TypeError b WriteOnPrimitive))"

text \<open>
  \<^verbatim>\<open>validateResponse\<close> (lines 41 to 185). Reading a property of null or undefined
  throws; that read and the template literal of line 61 are outside the \<^verbatim>\<open>try\<close>
  block, so their errors leave the function. An error inside the \<^verbatim>\<open>try\<close> block
  becomes the generic error response.
\<close>

definition validateResponse :: "builtins \<Rightarrow> jsval \<Rightarrow> js_error + jsval" where
  "validateResponse b response0 =
     (if is_nullish response0 then Inl (TypeError b ReadOfNullish)
      else
        case (let i = get_prop response0 ''interpretation''
              in if \<not> truthy i \<or> \<not> is_string i then assignInterpretation b response0
                 else Inr response0) of
          Inl e \<Rightarrow> Inl e
        | Inr response \<Rightarrow>
            let statistics = get_prop response ''statistics'';
                ty = get_prop statistics ''type''
            in
            if \<not> truthy statistics \<or> \<not> truthy ty
            then Inr (createErrorResponse
                        ''Invalid response structure: missing statistics or chart type'')
            else if ty \<noteq> JStr ''pie_chart'' \<and> ty \<noteq> JStr ''waterfall_chart''
            then (case ToString b ty of
                    Inl e \<Rightarrow> Inl e
                  | Inr t \<Rightarrow> Inr (createErrorResponse (''Invalid chart type: '' @ t)))
            else if \<not> truthy (get_prop statistics ''data'')
            then Inr (createErrorResponse ''Invalid response structure: missing chart data'')
            else
              (case (if ty = JStr ''pie_chart'' then pie_branch b response
                     else waterfall_branch b response) of
                 Inl error \<Rightarrow>
                   Inr (createErrorResponse (''Validation error: '' @ err_message error))
               | Inr validated \<Rightarrow> Inr validated))"

subsection \<open>The collaborators\<close>

text \<open>
  The two output schemas passed to the model as \<^verbatim>\<open>text.format.schema\<close>.
\<close>

datatype schema = simplePieChartSchema | simpleWaterfallChartSchema

text \<open>
  A prompt is the template it is built from together with the values interpolated into
  it; the system prompt and the database schema text are constants. The templates of the
  first two attempts interpolate the chart type and one of two examples; the last attempt
  has one template per chart type. The rows stand for \<^verbatim>\<open>JSON.stringify(data)\<close>.
\<close>

datatype example = WaterfallExample | PieExample

datatype prompt =
    SqlQueryPrompt string
  | ChartTypePrompt string "jsval list"
  | StandardPrompt string string "jsval list" example
  | StructuredPrompt string string "jsval list" example
  | ThreePointWaterfallPrompt string "jsval list"
  | ThreePointPiePrompt string "jsval list"

record request =
  prompt_of :: prompt
  schema_of :: "schema option"

datatype call = ResponsesCreate request | PoolQuery string "jsval list"

text \<open>
  The language model (\<^verbatim>\<open>openai.responses.create\<close>, read through \<^verbatim>\<open>output_text\<close>)
  and the database (\<^verbatim>\<open>pool.query\<close>, read through \<^verbatim>\<open>rows\<close>). Each answers from the
  calls made so far and the present request, so that any sequence of answers and failures
  is some collaborator. A failure is a thrown \<^verbatim>\<open>Error\<close> object.
\<close>

record collaborators =
  responses_create :: "call list \<Rightarrow> request \<Rightarrow> js_error + string"
  pool_query :: "call list \<Rightarrow> string \<Rightarrow> jsval list \<Rightarrow> js_error + jsval list"

subsection \<open>\<^verbatim>\<open>makeQuery\<close> and \<^verbatim>\<open>generateSqlQuery\<close>\<close>

definition makeQuery ::
  "collaborators \<Rightarrow> string \<Rightarrow> jsval list \<Rightarrow> call list \<Rightarrow> (js_error + jsval list) \<times> call list" where
  "makeQuery env query params calls =
     (if query = [] \<or> trim query = []
      then (Inl (Error ''Invalid query: Query must be a non-empty string''), calls)
      else
        ((case pool_query env calls query params of
            Inl error \<Rightarrow> Inl (Error (''Database error: '' @ err_message error))
          | Inr rows \<Rightarrow> Inr rows),
         calls @ [PoolQuery query params]))"

text \<open>
  \<^verbatim>\<open>${err.message || err}\<close>: an error with an empty message prints as its name.
\<close>

definition messageOrError :: "js_error \<Rightarrow> string" where
  "messageOrError err = (if err_message err \<noteq> [] then err_message err else err_name err)"

definition generateSqlQuery ::
  "builtins \<Rightarrow> collaborators \<Rightarrow> string \<Rightarrow> call list \<Rightarrow> (js_error + string) \<times> call list" where
  "generateSqlQuery b env question calls =
     (if question = [] \<or> trim question = []
      then (Inl (Error ''Invalid question: Question must be a non-empty string''), calls)
      else
        let req = \<lparr>prompt_of = SqlQueryPrompt question, schema_of = None\<rparr> in
        ((case (case responses_create env calls req of
                  Inl err \<Rightarrow> Inl err
                | Inr output_text \<Rightarrow>
                    let sqlQuery = trim output_text in
                    if \<not> includes_js (toUpperCase b sqlQuery) ''SELECT''
                    then Inl (Error ''Failed to generate a valid SQL query'')
                    else Inr sqlQuery) of
            Inl err \<Rightarrow> Inl (Error (''Failed to generate SQL query: '' @ messageOrError err))
          | Inr sqlQuery \<Rightarrow> Inr sqlQuery),
         calls @ [ResponsesCreate req]))"

subsection \<open>\<^verbatim>\<open>generateAnalysis\<close>\<close>

definition maxRetries :: nat where
  "maxRetries = 3"

text \<open>The prompt of attempt \<open>currentRetry\<close> (lines 408 to 547).\<close>

definition shapePrompt :: "string \<Rightarrow> string \<Rightarrow> jsval list \<Rightarrow> nat \<Rightarrow> prompt" where
  "shapePrompt chartType originalQuestion data currentRetry =
     (let example = (if chartType = ''waterfall_chart'' then WaterfallExample else PieExample)
      in
      if currentRetry = 0 then StandardPrompt chartType originalQuestion data example
      else if currentRetry = 1 then StructuredPrompt chartType originalQuestion data example
      else if chartType = ''waterfall_chart''
      then ThreePointWaterfallPrompt originalQuestion data
      else ThreePointPiePrompt originalQuestion data)"

text \<open>
  The test of lines 582 to 585. \<^verbatim>\<open>validateResponse\<close> returns a string interpretation
  (lemma \<open>validateResponse_valid\<close>); the last case is there for completeness and
  counts as a failed attempt.
\<close>

definition noErrorMessage :: "jsval \<Rightarrow> bool" where
  "noErrorMessage validatedResponse =
     (case get_prop validatedResponse ''interpretation'' of
        JStr s \<Rightarrow> \<not> includes_js s ''Invalid'' \<and> \<not> includes_js s ''Error''
      | _ \<Rightarrow> False)"

text \<open>
  What one answer of the model is worth (lines 568 to 588): the validated response, or
  nothing. Text that is not JSON is validated as the string it is.
\<close>

definition checkOutput :: "builtins \<Rightarrow> js_error + string \<Rightarrow> jsval option" where
  "checkOutput b answer =
     (case answer of
        Inl error \<Rightarrow> None
      | Inr content \<Rightarrow>
          let parsedResponse = (case JSON_parse b content of Some v \<Rightarrow> v | None \<Rightarrow> JStr content)
          in
          (case validateResponse b parsedResponse of
             Inl error \<Rightarrow> None
           | Inr validatedResponse \<Rightarrow>
               if noErrorMessage validatedResponse then Some validatedResponse else None))"

definition shapeRequest :: "string \<Rightarrow> schema \<Rightarrow> string \<Rightarrow> jsval list \<Rightarrow> nat \<Rightarrow> request" where
  "shapeRequest chartType schema originalQuestion data currentRetry =
     \<lparr>prompt_of = shapePrompt chartType originalQuestion data currentRetry,
      schema_of = Some schema\<rparr>"

text \<open>
  The \<^verbatim>\<open>do ... while (currentRetry < maxRetries && !validResponse)\<close> loop of lines 406
  to 596. The body runs; a valid response leaves the loop (\<^verbatim>\<open>break\<close>), anything else
  increments \<open>currentRetry\<close> and the condition is tested. The result is the valid
  response if any, the final counter and the calls made.
\<close>

function retryLoop ::
  "builtins \<Rightarrow> collaborators \<Rightarrow> string \<Rightarrow> schema \<Rightarrow> string \<Rightarrow> jsval list \<Rightarrow> nat \<Rightarrow> call list
   \<Rightarrow> jsval option \<times> nat \<times> call list" where
  "retryLoop b env chartType schema originalQuestion data currentRetry calls =
     (let req = shapeRequest chartType schema originalQuestion data currentRetry;
          calls1 = calls @ [ResponsesCreate req]
      in
      case checkOutput b (responses_create env calls req) of
        Some validResponse \<Rightarrow> (Some validResponse, currentRetry, calls1)
      | None \<Rightarrow>
          if Suc currentRetry < maxRetries
          then retryLoop b env chartType schema originalQuestion data (Suc currentRetry) calls1
          else (None, Suc currentRetry, calls1))"
  by pat_completeness auto

termination retryLoop
  by (relation "measure (\<lambda>(b, env, chartType, schema, originalQuestion, data, currentRetry, calls).
                  maxRetries - currentRetry)") simp_all

definition noDataResponse :: jsval where
  "noDataResponse =
     JObj [(''interpretation'', JStr ''No data available for analysis.''),
           (''statistics'', JObj [(''type'', JStr ''pie_chart''),
              (''data'', JObj [(''labels'', JArr [JStr ''No Data'']),
                               (''values'', JArr [JNum (Finite 100)])])])]"

text \<open>Lines 599 to 625, with \<open>n\<close> for \<^verbatim>\<open>data.length\<close>.\<close>

definition fallbackResponse :: "string \<Rightarrow> nat \<Rightarrow> jsval" where
  "fallbackResponse chartType n =
     (if chartType = ''waterfall_chart''
      then JObj [(''interpretation'',
                  JStr ''Unable to generate a detailed analysis, but here's a simple overview of the data.''),
                 (''statistics'', JObj [(''type'', JStr ''waterfall_chart''),
                    (''data'', JObj [(''categories'', JArr [JStr ''Start'', JStr ''Change'', JStr ''End'']),
                                     (''values'', JArr [JNum (Finite 0), JNum (Finite (real n)),
                                                        JNum (Finite (real n))])])])]
      else JObj [(''interpretation'',
                  JStr ''Unable to generate a detailed analysis, but here's a simple overview of the data.''),
                 (''statistics'', JObj [(''type'', JStr ''pie_chart''),
                    (''data'', JObj [(''labels'', JArr [JStr ''Data Points'']),
                                     (''values'', JArr [JNum (Finite (real n))])])])])"

text \<open>
  \<^verbatim>\<open>generateAnalysis\<close> (lines 352 to 628). The classifier call is outside every
  \<^verbatim>\<open>try\<close> block: its failure rejects the promise.
\<close>

definition generateAnalysis ::
  "builtins \<Rightarrow> collaborators \<Rightarrow> jsval list \<Rightarrow> string \<Rightarrow> call list \<Rightarrow> (js_error + jsval) \<times> call list" where
  "generateAnalysis b env data originalQuestion calls =
     (if data = [] then (Inr noDataResponse, calls)
      else
        let req = \<lparr>prompt_of = ChartTypePrompt originalQuestion data, schema_of = None\<rparr>;
            calls1 = calls @ [ResponsesCreate req]
        in
        case responses_create env calls req of
          Inl error \<Rightarrow> (Inl error, calls1)
        | Inr output_text \<Rightarrow>
            let chartType = toLowerCase b (trim output_text);
                schema = (if chartType = ''waterfall_chart'' then simpleWaterfallChartSchema
                          else simplePieChartSchema)
            in
            (case retryLoop b env chartType schema originalQuestion data 0 calls1 of
               (None, currentRetry, calls2) \<Rightarrow>
                 (Inr (fallbackResponse chartType (length data)), calls2)
             | (Some validResponse, currentRetry, calls2) \<Rightarrow> (Inr validResponse, calls2)))"

subsection \<open>\<^verbatim>\<open>analyzeStatisticalQuestion\<close>\<close>

text \<open>
  The promise chain of lines 713 to 730: the first rejection skips the remaining
  \<^verbatim>\<open>then\<close> steps and reaches the \<^verbatim>\<open>catch\<close> handler, which resolves with an error
  response. \<open>Inl\<close> in the result would be a promise rejected towards the caller.
\<close>

definition analyzeStatisticalQuestion ::
  "builtins \<Rightarrow> collaborators \<Rightarrow> string \<Rightarrow> (js_error + jsval) \<times> call list" where
  "analyzeStatisticalQuestion b env userQuestion =
     (if userQuestion = [] \<or> trim userQuestion = []
      then (Inr (createErrorResponse ''Invalid question: Question must be a non-empty string''), [])
      else
        let (chain, calls) =
          (case generateSqlQuery b env userQuestion [] of
             (Inl error, calls1) \<Rightarrow> (Inl error, calls1)
           | (Inr sqlQuery, calls1) \<Rightarrow>
               (case makeQuery env sqlQuery [] calls1 of
                  (Inl error, calls2) \<Rightarrow> (Inl error, calls2)
                | (Inr queryResults, calls2) \<Rightarrow>
                    generateAnalysis b env queryResults userQuestion calls2))
        in
        (case chain of
           Inl error \<Rightarrow> (Inr (createErrorResponse (''Analysis failed: '' @ err_message error)), calls)
         | Inr result \<Rightarrow> (Inr result, calls)))"

subsection \<open>The chart validators of the sibling module\<close>

text \<open>
  \<^verbatim>\<open>systemPrompt.ts\<close> holds another version of the pipeline. Its validator calls
  \<^verbatim>\<open>validatePieChartData\<close> (lines 521 to 561 of that file) or
  \<^verbatim>\<open>validateWaterfallChartData\<close> (lines 568 to 595) on a response whose
  \<^verbatim>\<open>statistics.data\<close> it has found truthy. \<^verbatim>\<open>value < 0\<close> on a number is false for NaN.
\<close>

definition lessThanZero :: "jsnum \<Rightarrow> bool" where
  "lessThanZero n =
     (case n of NaN \<Rightarrow> False | PosInfinity \<Rightarrow> False | NegInfinity \<Rightarrow> True | Finite r \<Rightarrow> r < 0)"

fun delete_prop :: "jsval \<Rightarrow> string \<Rightarrow> jsval" where
  "delete_prop (JObj kvs) k = JObj (AList.delete k kvs)"
| "delete_prop r k = r"

definition validatePieChartData :: "jsval \<Rightarrow> jsval" where
  "validatePieChartData response =
     (let statistics = get_prop response ''statistics'';
          data = get_prop statistics ''data'';
          labels = get_prop data ''labels'';
          values = get_prop data ''values'';
          colors = get_prop data ''colors''
      in
      if \<not> truthy labels \<or> \<not> truthy values \<or> \<not> isArray labels \<or> \<not> isArray values
      then createPieChartErrorResponse
             ''Invalid pie chart data: labels and values must be arrays''
      else if length (elems labels) \<noteq> length (elems values)
      then createPieChartErrorResponse
             ''Invalid pie chart data: labels and values arrays must have the same length''
      else if list_ex (\<lambda>value. case value of JNum n \<Rightarrow> lessThanZero n | _ \<Rightarrow> True) (elems values)
      then createPieChartErrorResponse
             ''Invalid pie chart data: values must be non-negative numbers''
      else if truthy colors
                \<and> (\<not> isArray colors \<or> length (elems colors) \<noteq> length (elems labels))
      then put response ''statistics'' (put statistics ''data'' (delete_prop data ''colors''))
      else response)"

definition validateWaterfallChartData :: "jsval \<Rightarrow> jsval" where
  "validateWaterfallChartData response =
     (let statistics = get_prop response ''statistics'';
          data = get_prop statistics ''data'';
          categories = get_prop data ''categories'';
          values = get_prop data ''values''
      in
      if \<not> truthy categories \<or> \<not> truthy values \<or> \<not> isArray categories \<or> \<not> isArray values
      then createWaterfallChartErrorResponse
             ''Invalid waterfall chart data: categories and values must be arrays''
      else if length (elems categories) \<noteq> length (elems values)
      then createWaterfallChartErrorResponse
             ''Invalid waterfall chart data: categories and values arrays must have the same length''
      else if list_ex (\<lambda>value. case value of JNum n \<Rightarrow> False | _ \<Rightarrow> True) (elems values)
      then createWaterfallChartErrorResponse
             ''Invalid waterfall chart data: values must be numbers''
      else response)"

subsection \<open>Notions used in the statements\<close>

text \<open>
  The parts of a response: \<^verbatim>\<open>r.statistics.type\<close> and \<^verbatim>\<open>r.statistics.data\<close>.
\<close>

fun is_object :: "jsval \<Rightarrow> bool" where
  "is_object (JObj kvs) = True"
| "is_object v = False"

definition statisticsType :: "jsval \<Rightarrow> jsval" where
  "statisticsType r = get_prop (get_prop r ''statistics'') ''type''"

definition statisticsData :: "jsval \<Rightarrow> jsval" where
  "statisticsData r = get_prop (get_prop r ''statistics'') ''data''"

text \<open>
  The response after lines 43 to 46, when it is an object: a missing, falsy or
  non-string interpretation is replaced by the default text.
\<close>

definition withInterpretation :: "jsval \<Rightarrow> jsval" where
  "withInterpretation response =
     (let i = get_prop response ''interpretation''
      in if \<not> truthy i \<or> \<not> is_string i
         then put response ''interpretation''
                (JStr ''Analysis generated but no interpretation provided.'')
         else response)"

text \<open>
  A value coerces to a number when \<^verbatim>\<open>Number(v)\<close> returns and is not NaN; the
  coercion throws when \<^verbatim>\<open>Number(v)\<close> raises. \<open>numericIndices\<close> are the indices of
  the values that coerce, in order, and \<open>keptValues\<close> the numbers they coerce to.
\<close>

definition coerces :: "builtins \<Rightarrow> jsval \<Rightarrow> bool" where
  "coerces b v = (case Number b v of Inl e \<Rightarrow> False | Inr n \<Rightarrow> n \<noteq> NaN)"

definition throws :: "builtins \<Rightarrow> jsval \<Rightarrow> bool" where
  "throws b v = (case Number b v of Inl e \<Rightarrow> True | Inr n \<Rightarrow> False)"

definition coerced :: "builtins \<Rightarrow> jsval \<Rightarrow> jsnum" where
  "coerced b v = (case Number b v of Inl e \<Rightarrow> NaN | Inr n \<Rightarrow> n)"

definition numericIndices :: "builtins \<Rightarrow> jsval list \<Rightarrow> nat list" where
  "numericIndices b vs = filter (\<lambda>j. coerces b (vs ! j)) [0..<length vs]"

definition keptValues :: "builtins \<Rightarrow> jsval list \<Rightarrow> jsnum list" where
  "keptValues b vs = map (\<lambda>j. coerced b (vs ! j)) (numericIndices b vs)"

text \<open>
  The kept categories are the categories at these indices, in order; where the category
  is missing or falsy, the text "Item" with the index stands for it.
\<close>

definition keptCategories :: "builtins \<Rightarrow> jsval list \<Rightarrow> jsval list \<Rightarrow> jsval list" where
  "keptCategories b cs vs =
     map (\<lambda>j. if j < length cs \<and> truthy (cs ! j) then cs ! j else JStr (''Item '' @ show_nat j))
       (numericIndices b vs)"

text \<open>
  A text \<open>t\<close>, written in lower-case letters, occurs in a string in any case of letters
  when some substring of the string equals \<open>t\<close> up to the replacement of letters of
  \<open>t\<close> by their capitals. A category mentions \<open>t\<close> when it is a string in which
  \<open>t\<close> occurs in any case of letters.
\<close>

definition upper_char :: "char \<Rightarrow> char" where
  "upper_char c =
     (case map_of (zip ''abcdefghijklmnopqrstuvwxyz'' ''ABCDEFGHIJKLMNOPQRSTUVWXYZ'') c of
        Some u \<Rightarrow> u
      | None \<Rightarrow> c)"

fun startsIgnoringCase :: "string \<Rightarrow> string \<Rightarrow> bool" where
  "startsIgnoringCase [] s = True"
| "startsIgnoringCase (d # ds) [] = False"
| "startsIgnoringCase (d # ds) (c # cs) = ((c = d \<or> c = upper_char d) \<and> startsIgnoringCase ds cs)"

fun occursIgnoringCase :: "string \<Rightarrow> string \<Rightarrow> bool" where
  "occursIgnoringCase t [] = (t = [])"
| "occursIgnoringCase t (c # cs) = (startsIgnoringCase t (c # cs) \<or> occursIgnoringCase t cs)"

definition mentions :: "jsval \<Rightarrow> string \<Rightarrow> bool" where
  "mentions c t = (case c of JStr s \<Rightarrow> occursIgnoringCase t s | _ \<Rightarrow> False)"

text \<open>
  On text with characters outside ASCII the lower case is the engine's. Of the characters
  outside ASCII, Unicode gives a lower case that has an ASCII letter to two only, the
  Kelvin sign (k) and the capital I with a dot (i), and no character has an empty lower
  case. For a text \<open>t\<close> of lower-case ASCII letters other than k and i, the lower case of
  a string therefore includes \<open>t\<close> exactly when \<open>t\<close> occurs in the string in any case
  of letters. \<open>unicodeLowerCase b t\<close> says so of the engine \<open>b\<close>; on ASCII text it is
  proved (lemma \<open>lower_includes\<close>).
\<close>

definition unicodeLowerCase :: "builtins \<Rightarrow> string \<Rightarrow> bool" where
  "unicodeLowerCase b t =
     (\<forall>s. \<not> isASCII s \<longrightarrow> includes_js (toLowerCaseUnicode b s) t = occursIgnoringCase t s)"

text \<open>
  The test the program makes on a category, \<^verbatim>\<open>c.toLowerCase().includes(t)\<close>, when the
  category is a string. The renaming of lines 153 to 170 throws when a category it
  lower-cases is not a string: the first one if the first value is 0, and the last one.
\<close>

definition containsText :: "builtins \<Rightarrow> jsval \<Rightarrow> string \<Rightarrow> bool" where
  "containsText b c t = (case c of JStr s \<Rightarrow> includes_js (toLowerCase b s) t | _ \<Rightarrow> False)"

definition relabelThrows :: "jsval list \<Rightarrow> jsnum list \<Rightarrow> bool" where
  "relabelThrows kept nums =
     ((take 1 nums = [Finite 0] \<and> \<not> is_string (kept ! 0))
      \<or> \<not> is_string (kept ! (length kept - 1)))"

text \<open>
  The structural invariant of a result, and what makes a value an analysis result: an
  interpretation string and a chart of one of the two types with a data object.
\<close>

definition sameLength :: "jsval \<Rightarrow> jsval \<Rightarrow> bool" where
  "sameLength a c = (isArray a \<and> isArray c \<and> length (elems a) = length (elems c))"

definition structurallyValid :: "jsval \<Rightarrow> bool" where
  "structurallyValid r =
     ((statisticsType r = JStr ''pie_chart'' \<longrightarrow>
         sameLength (get_prop (statisticsData r) ''labels'') (get_prop (statisticsData r) ''values''))
      \<and> (statisticsType r = JStr ''waterfall_chart'' \<longrightarrow>
         sameLength (get_prop (statisticsData r) ''categories'')
           (get_prop (statisticsData r) ''values'')
         \<and> 2 \<le> length (elems (get_prop (statisticsData r) ''values''))))"

definition isAnalysisResult :: "jsval \<Rightarrow> bool" where
  "isAnalysisResult r =
     (is_string (get_prop r ''interpretation'')
      \<and> (statisticsType r = JStr ''pie_chart'' \<or> statisticsType r = JStr ''waterfall_chart'')
      \<and> is_object (statisticsData r))"

text \<open>
  A shape-generation request is a model call that carries an output schema. An answer
  of the model is flagged when it validates and the validated interpretation contains
  "Invalid" or "Error".
\<close>

definition isShapeCall :: "call \<Rightarrow> bool" where
  "isShapeCall c = (case c of ResponsesCreate req \<Rightarrow> schema_of req \<noteq> None | PoolQuery q ps \<Rightarrow> False)"

definition flagged :: "builtins \<Rightarrow> js_error + string \<Rightarrow> bool" where
  "flagged b answer =
     (case answer of
        Inl error \<Rightarrow> False
      | Inr content \<Rightarrow>
          (case validateResponse b
                  (case JSON_parse b content of Some v \<Rightarrow> v | None \<Rightarrow> JStr content) of
             Inl error \<Rightarrow> False
           | Inr validated \<Rightarrow>
               (case get_prop validated ''interpretation'' of
                  JStr s \<Rightarrow> includes_js s ''Invalid'' \<or> includes_js s ''Error''
                | _ \<Rightarrow> False)))"

definition classifyRequest :: "string \<Rightarrow> jsval list \<Rightarrow> request" where
  "classifyRequest originalQuestion data =
     \<lparr>prompt_of = ChartTypePrompt originalQuestion data, schema_of = None\<rparr>"

text \<open>
  The two fallback responses of lines 599 to 625, by chart type.
\<close>

definition waterfallFallback :: "nat \<Rightarrow> jsval" where
  "waterfallFallback rowCount =
     JObj [(''interpretation'',
            JStr ''Unable to generate a detailed analysis, but here's a simple overview of the data.''),
           (''statistics'', JObj [(''type'', JStr ''waterfall_chart''),
              (''data'', JObj [(''categories'', JArr [JStr ''Start'', JStr ''Change'', JStr ''End'']),
                               (''values'', JArr [JNum (Finite 0), JNum (Finite (real rowCount)),
                                                  JNum (Finite (real rowCount))])])])]"

definition pieFallback :: "nat \<Rightarrow> jsval" where
  "pieFallback rowCount =
     JObj [(''interpretation'',
            JStr ''Unable to generate a detailed analysis, but here's a simple overview of the data.''),
           (''statistics'', JObj [(''type'', JStr ''pie_chart''),
              (''data'', JObj [(''labels'', JArr [JStr ''Data Points'']),
                               (''values'', JArr [JNum (Finite (real rowCount))])])])]"

subsection \<open>Concrete inputs\<close>

text \<open>
  Responses given to the validator, and what it returns for some of them.
\<close>

definition negativePie :: jsval where
  "negativePie =
     JObj [(''interpretation'', JStr ''Net position by account''),
           (''statistics'', JObj [(''type'', JStr ''pie_chart''),
              (''data'', JObj [(''labels'', JArr [JStr ''Refunds'', JStr ''Sales'']),
                               (''values'', JArr [JNum (Finite (- 5)), JNum (Finite 10)])])])]"

definition yearsWaterfall :: jsval where
  "yearsWaterfall =
     JObj [(''interpretation'', JStr ''Revenue by year''),
           (''statistics'', JObj [(''type'', JStr ''waterfall_chart''),
              (''data'', JObj [(''categories'', JArr [JNum (Finite 2023), JNum (Finite 2024)]),
                               (''values'', JArr [JNum (Finite 100), JNum (Finite 120)])])])]"

definition yearTotalWaterfall :: jsval where
  "yearTotalWaterfall =
     JObj [(''interpretation'', JStr ''Revenue by year''),
           (''statistics'', JObj [(''type'', JStr ''waterfall_chart''),
              (''data'', JObj [(''categories'', JArr [JNum (Finite 2023), JStr ''2024 total'']),
                               (''values'', JArr [JNum (Finite 100), JNum (Finite 120)])])])]"

definition balanceWaterfall :: jsval where
  "balanceWaterfall =
     JObj [(''interpretation'', JStr ''Balance over the month''),
           (''statistics'', JObj [(''type'', JStr ''waterfall_chart''),
              (''data'', JObj [(''categories'', JArr [JStr ''Opening balance'', JStr ''Sales'',
                                                      JStr ''Closing balance'']),
                               (''values'', JArr [JNum (Finite 0), JNum (Finite 40),
                                                  JNum (Finite 40)])])])]"

definition balanceValidated :: jsval where
  "balanceValidated =
     JObj [(''interpretation'', JStr ''Balance over the month''),
           (''statistics'', JObj [(''type'', JStr ''waterfall_chart''),
              (''data'', JObj [(''categories'', JArr [JStr ''Start'', JStr ''Sales'', JStr ''End'']),
                               (''values'', JArr [JNum (Finite 0), JNum (Finite 40),
                                                  JNum (Finite 40)]),
                               (''increaseLabelText'', JStr ''Increase''),
                               (''decreaseLabelText'', JStr ''Decrease''),
                               (''totalLabelText'', JStr ''Total'')])])]"

definition capitalsWaterfall :: jsval where
  "capitalsWaterfall =
     JObj [(''interpretation'', JStr ''Balance over the month''),
           (''statistics'', JObj [(''type'', JStr ''waterfall_chart''),
              (''data'', JObj [(''categories'', JArr [JStr ''RESTART'', JStr ''Sales'',
                                                      JStr ''Grand TOTAL'']),
                               (''values'', JArr [JNum (Finite 0), JNum (Finite 40),
                                                  JNum (Finite 40)])])])]"

definition capitalsValidated :: jsval where
  "capitalsValidated =
     JObj [(''interpretation'', JStr ''Balance over the month''),
           (''statistics'', JObj [(''type'', JStr ''waterfall_chart''),
              (''data'', JObj [(''categories'', JArr [JStr ''RESTART'', JStr ''Sales'',
                                                      JStr ''Grand TOTAL'']),
                               (''values'', JArr [JNum (Finite 0), JNum (Finite 40),
                                                  JNum (Finite 40)]),
                               (''increaseLabelText'', JStr ''Increase''),
                               (''decreaseLabelText'', JStr ''Decrease''),
                               (''totalLabelText'', JStr ''Total'')])])]"

definition paymentsValidated :: jsval where
  "paymentsValidated =
     JObj [(''interpretation'', JStr ''Invoices by payment method''),
           (''statistics'', JObj [(''type'', JStr ''pie_chart''),
              (''data'', JObj [(''labels'', JArr [JStr ''Bank Transfer'', JStr ''Credit Card'']),
                               (''values'', JArr [JNum (Finite 12), JNum (Finite 5)]),
                               (''colors'', JArr [JStr ''#4299E1'', JStr ''#48BB78''])])])]"

definition errorRatesValidated :: jsval where
  "errorRatesValidated =
     JObj [(''interpretation'', JStr ''Error rates by region''),
           (''statistics'', JObj [(''type'', JStr ''pie_chart''),
              (''data'', JObj [(''labels'', JArr [JStr ''North'', JStr ''South'']),
                               (''values'', JArr [JNum (Finite 3), JNum (Finite 7)]),
                               (''colors'', JArr [JStr ''#4299E1'', JStr ''#48BB78''])])])]"

text \<open>
  An engine to run the embedding on the concrete inputs below. Its message texts are
  those of V8. Its \<^verbatim>\<open>StringToNumber\<close> is right on blank text and on text that is no
  numeric literal, its \<^verbatim>\<open>toUpperCase\<close> on ASCII text, its lower case on text whose
  characters outside ASCII have no case, its number printing on integers, and its
  \<^verbatim>\<open>JSON.parse\<close> on the four sample texts and on text that is not JSON; the inputs
  below use it on nothing else.
\<close>

definition printNumber :: "jsnum \<Rightarrow> string" where
  "printNumber n =
     (case n of
        NaN \<Rightarrow> ''NaN''
      | PosInfinity \<Rightarrow> ''Infinity''
      | NegInfinity \<Rightarrow> ''-Infinity''
      | Finite r \<Rightarrow> (if r < 0 then ''-'' else []) @ show_nat (nat \<lfloor>\<bar>r\<bar>\<rfloor>))"

definition v8Message :: "engine_fault \<Rightarrow> string" where
  "v8Message f =
     (case f of
        ReadOfNullish \<Rightarrow> ''Cannot read properties of undefined''
      | WriteOnPrimitive \<Rightarrow> ''Cannot create property 'interpretation' on string''
      | NotAFunction \<Rightarrow> ''data.categories[lastIdx].toLowerCase is not a function''
      | NoPrimitiveValue \<Rightarrow> ''Cannot convert object to primitive value'')"

definition errorRatesText :: string where
  \<open>errorRatesText =
     ''{"interpretation":"Error rates by region","statistics":{"type":"pie_chart","data":{"labels":["North","South"],"values":[3,7]}}}''\<close>

definition errorRates :: jsval where
  "errorRates =
     JObj [(''interpretation'', JStr ''Error rates by region''),
           (''statistics'', JObj [(''type'', JStr ''pie_chart''),
              (''data'', JObj [(''labels'', JArr [JStr ''North'', JStr ''South'']),
                               (''values'', JArr [JNum (Finite 3), JNum (Finite 7)])])])]"

definition paymentsText :: string where
  \<open>paymentsText =
     ''{"interpretation":"Invoices by payment method","statistics":{"type":"pie_chart","data":{"labels":["Bank Transfer","Credit Card"],"values":[12,5]}}}''\<close>

definition payments :: jsval where
  "payments =
     JObj [(''interpretation'', JStr ''Invoices by payment method''),
           (''statistics'', JObj [(''type'', JStr ''pie_chart''),
              (''data'', JObj [(''labels'', JArr [JStr ''Bank Transfer'', JStr ''Credit Card'']),
                               (''values'', JArr [JNum (Finite 12), JNum (Finite 5)])])])]"

definition balanceText :: string where
  \<open>balanceText =
     ''{"interpretation":"Balance over the month","statistics":{"type":"waterfall_chart","data":{"categories":["Opening balance","Sales","Closing balance"],"values":[0,40,40]}}}''\<close>

definition yearsText :: string where
  \<open>yearsText =
     ''{"interpretation":"Revenue by year","statistics":{"type":"waterfall_chart","data":{"categories":[2023,2024],"values":[100,120]}}}''\<close>

definition sampleTexts :: "(string \<times> jsval) list" where
  "sampleTexts =
     [(errorRatesText, errorRates), (paymentsText, payments), (balanceText, balanceWaterfall),
      (yearsText, yearsWaterfall)]"

definition engine :: builtins where
  "engine =
     \<lparr>StringToNumber = (\<lambda>s. if trim s = [] then Finite 0 else NaN),
      NumberToString = printNumber,
      JSON_parse = map_of sampleTexts,
      toUpperCase = map upper_char,
      toLowerCaseUnicode = map lower_char,
      typeErrorMessage = v8Message\<rparr>"

text \<open>
  Collaborators that answer by the kind of request: the SQL text, the rows, the
  classifier's answer and the text of every shape-generation answer.
\<close>

definition scripted :: "string \<Rightarrow> jsval list \<Rightarrow> string \<Rightarrow> string \<Rightarrow> collaborators" where
  "scripted sqlText rows chartText shapeText =
     \<lparr>responses_create =
        (\<lambda>calls req.
           case prompt_of req of
             SqlQueryPrompt question \<Rightarrow> Inr sqlText
           | ChartTypePrompt question data \<Rightarrow> Inr chartText
           | _ \<Rightarrow> Inr shapeText),
      pool_query = (\<lambda>calls query params. Inr rows)\<rparr>"

text \<open>
  Collaborators whose shape-generation answer depends on the attempt: the first text
  answers the standard prompt, the second the structured prompt and the third the
  three-point prompt.
\<close>

definition scriptedAttempts ::
  "string \<Rightarrow> jsval list \<Rightarrow> string \<Rightarrow> string \<Rightarrow> string \<Rightarrow> string \<Rightarrow> collaborators" where
  "scriptedAttempts sqlText rows chartText firstText secondText thirdText =
     \<lparr>responses_create =
        (\<lambda>calls req.
           case prompt_of req of
             SqlQueryPrompt question \<Rightarrow> Inr sqlText
           | ChartTypePrompt question data \<Rightarrow> Inr chartText
           | StandardPrompt chartType question data example \<Rightarrow> Inr firstText
           | StructuredPrompt chartType question data example \<Rightarrow> Inr secondText
           | _ \<Rightarrow> Inr thirdText),
      pool_query = (\<lambda>calls query params. Inr rows)\<rparr>"

definition twoRows :: "jsval list" where
  "twoRows =
     [JObj [(''payment_method'', JStr ''Bank Transfer''), (''count'', JNum (Finite 12))],
      JObj [(''payment_method'', JStr ''Credit Card''), (''count'', JNum (Finite 5))]]"

subsection \<open>Auxiliary facts\<close>

lemma get_prop_receiver: "get_prop r k \<noteq> JUndefined \<Longrightarrow> is_object r"
  by (cases r) simp_all

lemma get_put: "is_object r \<Longrightarrow> get_prop (put r k v) k' = (if k' = k then v else get_prop r k')"
  by (cases r) (simp_all add: update_conv')

lemma is_object_put: "is_object (put r k v) = is_object r"
  by (cases r) simp_all

lemma numericIndices_Cons:
  "numericIndices b (v # vs) =
     (if coerces b v then [0] else []) @ map Suc (numericIndices b vs)"
proof -
  have "[0..<length (v # vs)] = 0 # map Suc [0..<length vs]"
    by (simp add: upt_conv_Cons map_Suc_upt del: upt_Suc)
  then show ?thesis
    by (simp add: numericIndices_def filter_map comp_def)
qed

lemma validIndices_numeric:
  "\<not> list_ex (throws b) vs \<Longrightarrow>
   validIndices b vs i = Inr (map (\<lambda>j. i + j) (numericIndices b vs))"
proof (induction vs arbitrary: i)
  case Nil
  then show ?case by (simp add: numericIndices_def)
next
  case (Cons v vs)
  from Cons.prems obtain n where n: "Number b v = Inr n"
    by (cases "Number b v") (simp_all add: throws_def)
  from Cons.prems have "\<not> list_ex (throws b) vs" by simp
  then have "validIndices b vs (Suc i) = Inr (map (\<lambda>j. Suc i + j) (numericIndices b vs))"
    by (rule Cons.IH)
  with n show ?case
    by (simp add: numericIndices_Cons coerces_def comp_def)
qed

lemma validIndices_throws:
  "list_ex (throws b) vs \<Longrightarrow> \<exists>e. validIndices b vs i = Inl e"
proof (induction vs arbitrary: i)
  case Nil
  then show ?case by simp
next
  case (Cons v vs)
  show ?case
  proof (cases "Number b v")
    case (Inl e)
    then show ?thesis by simp
  next
    case (Inr n)
    then have "\<not> throws b v" by (simp add: throws_def)
    with Cons.prems have "list_ex (throws b) vs" by simp
    then obtain e where "validIndices b vs (Suc i) = Inl e"
      using Cons.IH by blast
    with Inr show ?thesis by simp
  qed
qed

lemma numericIndices_bound: "j \<in> set (numericIndices b vs) \<Longrightarrow> j < length vs"
  by (simp add: numericIndices_def)

lemma sequence_numbers:
  "\<not> list_ex (throws b) vs \<Longrightarrow> \<forall>j\<in>set idxs. j < length vs \<Longrightarrow>
   sequence_js (map (\<lambda>idx. Number b (index vs idx)) idxs) = Inr (map (\<lambda>j. coerced b (vs ! j)) idxs)"
proof (induction idxs)
  case Nil
  then show ?case by simp
next
  case (Cons j idxs)
  then have j: "j < length vs" by simp
  with Cons.prems(1) have "\<not> throws b (vs ! j)"
    by (auto simp: list_ex_iff)
  then obtain n where "Number b (vs ! j) = Inr n"
    by (cases "Number b (vs ! j)") (simp_all add: throws_def)
  with Cons j show ?case
    by (simp add: index_def coerced_def)
qed

lemma is_object_withInterpretation: "is_object (withInterpretation r) = is_object r"
  by (simp add: withInterpretation_def Let_def is_object_put)

lemma get_withInterpretation:
  "k \<noteq> ''interpretation'' \<Longrightarrow> get_prop (withInterpretation r) k = get_prop r k"
  by (cases r) (simp_all add: withInterpretation_def Let_def update_conv')

lemma validateResponse_object:
  assumes "is_object response"
  shows "validateResponse b response =
     (let r = withInterpretation response;
          statistics = get_prop response ''statistics'';
          ty = get_prop statistics ''type''
      in
      if \<not> truthy statistics \<or> \<not> truthy ty
      then Inr (createErrorResponse
                  ''Invalid response structure: missing statistics or chart type'')
      else if ty \<noteq> JStr ''pie_chart'' \<and> ty \<noteq> JStr ''waterfall_chart''
      then (case ToString b ty of
              Inl e \<Rightarrow> Inl e
            | Inr t \<Rightarrow> Inr (createErrorResponse (''Invalid chart type: '' @ t)))
      else if \<not> truthy (get_prop statistics ''data'')
      then Inr (createErrorResponse ''Invalid response structure: missing chart data'')
      else
        (case (if ty = JStr ''pie_chart'' then pie_branch b r else waterfall_branch b r) of
           Inl error \<Rightarrow> Inr (createErrorResponse (''Validation error: '' @ err_message error))
         | Inr validated \<Rightarrow> Inr validated))"
proof -
  from assms obtain kvs where r: "response = JObj kvs" by (cases response) simp_all
  have step: "(let i = get_prop response ''interpretation''
         in if \<not> truthy i \<or> \<not> is_string i then assignInterpretation b response
            else Inr response) = Inr (withInterpretation response)"
    by (simp add: r withInterpretation_def assignInterpretation_def Let_def)
  have stats: "get_prop (withInterpretation response) ''statistics'' = get_prop response ''statistics''"
    by (simp add: get_withInterpretation)
  show ?thesis
    unfolding validateResponse_def step
    by (simp add: r stats [unfolded r] Let_def)
qed

lemma pie_branch_kept:
  assumes "is_object r"
    and "get_prop r ''statistics'' = stats"
    and "get_prop stats ''data'' = data"
    and "get_prop data ''labels'' = JArr ls"
    and "get_prop data ''values'' = JArr vs"
    and "\<not> list_ex (throws b) vs"
  shows "pie_branch b r =
     (if numericIndices b vs = []
      then Inr (createPieChartErrorResponse ''Invalid pie chart data: no valid numeric values'')
      else Inr (put r ''statistics'' (put stats ''data''
             (addDefaultColors
                (put (put data ''labels'' (JArr (map (index ls) (numericIndices b vs))))
                   ''values'' (JArr (map (\<lambda>j. JNum (coerced b (vs ! j))) (numericIndices b vs))))))))"
proof -
  have idx: "validIndices b vs 0 = Inr (numericIndices b vs)"
    using validIndices_numeric [OF assms(6), of 0] by simp
  have nums: "sequence_js (map (\<lambda>idx. Number b (index vs idx)) (numericIndices b vs)) =
      Inr (map (\<lambda>j. coerced b (vs ! j)) (numericIndices b vs))"
    by (rule sequence_numbers [OF assms(6)]) (simp add: numericIndices_bound)
  show ?thesis
    unfolding pie_branch_def
    by (simp add: assms(2-5) idx nums Let_def comp_def)
qed

lemma lowerCased_string: "lowerCased b (JStr s) = Inr (toLowerCase b s)"
  by (simp add: lowerCased_def)

lemma lowerCased_other: "\<not> is_string c \<Longrightarrow> \<exists>e. lowerCased b c = Inl e"
  by (cases c) (simp_all add: lowerCased_def)

lemma ensureStartEnd_throws:
  assumes "2 \<le> length kept" and "relabelThrows kept nums"
  shows "\<exists>e. ensureStartEnd b kept nums = Inl e"
proof (cases "take 1 nums = [Finite 0] \<and> \<not> is_string (kept ! 0)")
  case True
  then obtain e where "lowerCased b (kept ! 0) = Inl e"
    using lowerCased_other by blast
  moreover have "kept \<noteq> []" using assms(1) by auto
  ultimately show ?thesis
    using True assms(1) by (simp add: ensureStartEnd_def index_def)
next
  case False
  with assms(2) have last: "\<not> is_string (kept ! (length kept - 1))"
    by (auto simp: relabelThrows_def)
  have pos: "length kept - 1 \<noteq> 0" "length kept - 1 < length kept" "kept \<noteq> []"
    using assms(1) by auto
  obtain e where e: "lowerCased b (kept ! (length kept - 1)) = Inl e"
    using lowerCased_other [OF last] by blast
  show ?thesis
  proof (cases "take 1 nums = [Finite 0]")
    case True
    with False obtain s where s: "kept ! 0 = JStr s"
      by (cases "kept ! 0") simp_all
    with True e pos assms(1) show ?thesis
      by (simp add: ensureStartEnd_def index_def lowerCased_string Let_def)
  next
    case False
    with e pos assms(1) show ?thesis
      by (simp add: ensureStartEnd_def index_def Let_def)
  qed
qed

lemma ensureStartEnd_renames:
  assumes "2 \<le> length kept" and "\<not> relabelThrows kept nums"
  shows "\<exists>renamed. ensureStartEnd b kept nums = Inr renamed
     \<and> length renamed = length kept
     \<and> renamed ! 0 =
         (if take 1 nums = [Finite 0] \<and> \<not> containsText b (kept ! 0) ''start''
          then JStr ''Start'' else kept ! 0)
     \<and> renamed ! (length kept - 1) =
         (if \<not> containsText b (kept ! (length kept - 1)) ''end''
             \<and> \<not> containsText b (kept ! (length kept - 1)) ''total''
          then JStr ''End'' else kept ! (length kept - 1))
     \<and> (\<forall>j. 0 < j \<and> j < length kept - 1 \<longrightarrow> renamed ! j = kept ! j)"
proof -
  have pos: "length kept - 1 \<noteq> 0" "length kept - 1 < length kept" "kept \<noteq> []"
    using assms(1) by auto
  from assms(2) obtain l where l: "kept ! (length kept - 1) = JStr l"
    by (cases "kept ! (length kept - 1)") (simp_all add: relabelThrows_def)
  show ?thesis
  proof (cases "take 1 nums = [Finite 0]")
    case True
    with assms(2) obtain s where s: "kept ! 0 = JStr s"
      by (cases "kept ! 0") (simp_all add: relabelThrows_def)
    with True l pos assms(1) show ?thesis
      by (simp add: ensureStartEnd_def index_def lowerCased_string Let_def containsText_def)
  next
    case False
    with l pos assms(1) show ?thesis
      by (simp add: ensureStartEnd_def index_def lowerCased_string Let_def containsText_def)
  qed
qed

lemma waterfall_branch_kept:
  assumes "is_object r"
    and "get_prop r ''statistics'' = stats"
    and "get_prop stats ''data'' = data"
    and "get_prop data ''categories'' = JArr cs"
    and "get_prop data ''values'' = JArr vs"
    and "\<not> list_ex (throws b) vs"
  shows "waterfall_branch b r =
     (if length (numericIndices b vs) < 2
      then Inr (createWaterfallChartErrorResponse
                  ''Invalid waterfall chart data: need at least 2 valid numeric values'')
      else
        (case ensureStartEnd b (keepCategories cs (numericIndices b vs))
                (map (\<lambda>j. coerced b (vs ! j)) (numericIndices b vs)) of
           Inl e \<Rightarrow> Inl e
         | Inr renamed \<Rightarrow>
             Inr (put r ''statistics'' (put stats ''data''
               (defaultText ''totalLabelText'' ''Total''
                 (defaultText ''decreaseLabelText'' ''Decrease''
                   (defaultText ''increaseLabelText'' ''Increase''
                     (put (put data ''categories'' (JArr renamed)) ''values''
                        (JArr (map (\<lambda>j. JNum (coerced b (vs ! j))) (numericIndices b vs)))))))))))"
proof -
  have idx: "validIndices b vs 0 = Inr (numericIndices b vs)"
    using validIndices_numeric [OF assms(6), of 0] by simp
  have nums: "sequence_js (map (\<lambda>idx. Number b (index vs idx)) (numericIndices b vs)) =
      Inr (map (\<lambda>j. coerced b (vs ! j)) (numericIndices b vs))"
    by (rule sequence_numbers [OF assms(6)]) (simp add: numericIndices_bound)
  show ?thesis
    unfolding waterfall_branch_def
    by (simp add: assms(2-5) idx nums Let_def comp_def split: sum.splits)
qed

lemma receiver_of_string: "get_prop r k = JStr s \<Longrightarrow> is_object r"
  by (cases r) simp_all

lemma receiver_of_array: "get_prop r k = JArr xs \<Longrightarrow> is_object r"
  by (cases r) simp_all

lemma receiver_of_object: "get_prop r k = v \<Longrightarrow> is_object v \<Longrightarrow> is_object r"
  by (cases r) auto

lemma is_object_truthy: "is_object r \<Longrightarrow> truthy r"
  by (cases r) simp_all

lemma is_object_addDefaultColors: "is_object (addDefaultColors d) = is_object d"
  by (simp add: addDefaultColors_def is_object_put)

lemma get_addDefaultColors:
  "k \<noteq> ''colors'' \<Longrightarrow> get_prop (addDefaultColors d) k = get_prop d k"
  by (cases d) (simp_all add: addDefaultColors_def update_conv')

lemma colors_addDefaultColors:
  "is_object d \<Longrightarrow> get_prop (addDefaultColors d) ''colors'' \<noteq> JUndefined"
  by (cases d) (auto simp: addDefaultColors_def update_conv')

lemma is_object_defaultText: "is_object (defaultText k t d) = is_object d"
  by (simp add: defaultText_def is_object_put)

lemma get_defaultText_other:
  "k' \<noteq> k \<Longrightarrow> get_prop (defaultText k t d) k' = get_prop d k'"
  by (cases d) (simp_all add: defaultText_def update_conv')

lemma get_defaultText_same:
  "is_object d \<Longrightarrow>
   get_prop (defaultText k t d) k = (if truthy (get_prop d k) then get_prop d k else JStr t)"
  by (cases d) (simp_all add: defaultText_def update_conv')

lemma validateResponse_pie:
  assumes "get_prop response ''statistics'' = stats"
    and "get_prop stats ''type'' = JStr ''pie_chart''"
    and "get_prop stats ''data'' = data"
    and "get_prop data ''labels'' = JArr ls"
    and "get_prop data ''values'' = JArr vs"
    and "\<not> list_ex (throws b) vs"
  shows "validateResponse b response =
     (if numericIndices b vs = []
      then Inr (createPieChartErrorResponse ''Invalid pie chart data: no valid numeric values'')
      else Inr (put (withInterpretation response) ''statistics'' (put stats ''data''
             (addDefaultColors
                (put (put data ''labels'' (JArr (map (index ls) (numericIndices b vs))))
                   ''values'' (JArr (map (\<lambda>j. JNum (coerced b (vs ! j))) (numericIndices b vs))))))))"
proof -
  have so: "is_object stats" using assms(2) by (auto intro: receiver_of_string)
  then have ro: "is_object response" using assms(1) by (rule receiver_of_object [rotated])
  have "is_object data" using assms(4) by (rule receiver_of_array)
  then have td: "truthy data" by (rule is_object_truthy)
  have ts: "truthy stats" using so by (rule is_object_truthy)
  have branch: "pie_branch b (withInterpretation response) =
     (if numericIndices b vs = []
      then Inr (createPieChartErrorResponse ''Invalid pie chart data: no valid numeric values'')
      else Inr (put (withInterpretation response) ''statistics'' (put stats ''data''
             (addDefaultColors
                (put (put data ''labels'' (JArr (map (index ls) (numericIndices b vs))))
                   ''values'' (JArr (map (\<lambda>j. JNum (coerced b (vs ! j))) (numericIndices b vs))))))))"
    by (rule pie_branch_kept [OF _ _ assms(3-6)])
       (simp_all add: is_object_withInterpretation ro get_withInterpretation assms(1))
  show ?thesis
    by (simp add: validateResponse_object [OF ro] assms(1-3) ts td branch Let_def)
qed

lemma validateResponse_waterfall:
  assumes "get_prop response ''statistics'' = stats"
    and "get_prop stats ''type'' = JStr ''waterfall_chart''"
    and "get_prop stats ''data'' = data"
    and "get_prop data ''categories'' = JArr cs"
    and "get_prop data ''values'' = JArr vs"
    and "\<not> list_ex (throws b) vs"
  shows "validateResponse b response =
     (if length (numericIndices b vs) < 2
      then Inr (createWaterfallChartErrorResponse
                  ''Invalid waterfall chart data: need at least 2 valid numeric values'')
      else
        (case ensureStartEnd b (keepCategories cs (numericIndices b vs))
                (map (\<lambda>j. coerced b (vs ! j)) (numericIndices b vs)) of
           Inl e \<Rightarrow> Inr (createErrorResponse (''Validation error: '' @ err_message e))
         | Inr renamed \<Rightarrow>
             Inr (put (withInterpretation response) ''statistics'' (put stats ''data''
               (defaultText ''totalLabelText'' ''Total''
                 (defaultText ''decreaseLabelText'' ''Decrease''
                   (defaultText ''increaseLabelText'' ''Increase''
                     (put (put data ''categories'' (JArr renamed)) ''values''
                        (JArr (map (\<lambda>j. JNum (coerced b (vs ! j))) (numericIndices b vs)))))))))))"
proof -
  have so: "is_object stats" using assms(2) by (auto intro: receiver_of_string)
  then have ro: "is_object response" using assms(1) by (rule receiver_of_object [rotated])
  have "is_object data" using assms(4) by (rule receiver_of_array)
  then have td: "truthy data" by (rule is_object_truthy)
  have ts: "truthy stats" using so by (rule is_object_truthy)
  note branch = waterfall_branch_kept [OF _ _ assms(3-6), of "withInterpretation response"]
  show ?thesis
    by (simp add: validateResponse_object [OF ro] assms(1-3) ts td branch
          is_object_withInterpretation ro get_withInterpretation Let_def split: sum.splits)
qed

lemma validateResponse_coercion_throws:
  assumes "get_prop response ''statistics'' = stats"
    and "get_prop stats ''type'' = JStr ''pie_chart'' \<and> get_prop data ''labels'' = JArr ls
         \<or> get_prop stats ''type'' = JStr ''waterfall_chart'' \<and> get_prop data ''categories'' = JArr ls"
    and "get_prop stats ''data'' = data"
    and "get_prop data ''values'' = JArr vs"
    and "list_ex (throws b) vs"
  shows "\<exists>e. validateResponse b response =
           Inr (createErrorResponse (''Validation error: '' @ err_message e))"
proof -
  have so: "is_object stats" using assms(2) by (auto intro: receiver_of_string)
  then have ro: "is_object response" using assms(1) by (rule receiver_of_object [rotated])
  have "is_object data" using assms(4) by (rule receiver_of_array)
  then have td: "truthy data" by (rule is_object_truthy)
  have ts: "truthy stats" using so by (rule is_object_truthy)
  obtain e where e: "validIndices b vs 0 = Inl e"
    using validIndices_throws [OF assms(5)] by blast
  from assms(2) have "validateResponse b response =
      Inr (createErrorResponse (''Validation error: '' @ err_message e))"
  proof
    assume "get_prop stats ''type'' = JStr ''pie_chart'' \<and> get_prop data ''labels'' = JArr ls"
    then show ?thesis
      by (simp add: validateResponse_object [OF ro] assms(1,3,4) ts td e pie_branch_def
            get_withInterpretation Let_def)
  next
    assume "get_prop stats ''type'' = JStr ''waterfall_chart'' \<and> get_prop data ''categories'' = JArr ls"
    then show ?thesis
      by (simp add: validateResponse_object [OF ro] assms(1,3,4) ts td e waterfall_branch_def
            get_withInterpretation Let_def)
  qed
  then show ?thesis by blast
qed

lemma accepted_fields:
  assumes "is_object R" and "is_object stats"
  shows "statisticsType (put R ''statistics'' (put stats ''data'' d)) = get_prop stats ''type''"
    and "statisticsData (put R ''statistics'' (put stats ''data'' d)) = d"
    and "get_prop (put R ''statistics'' (put stats ''data'' d)) ''interpretation'' =
           get_prop R ''interpretation''"
  using assms by (simp_all add: statisticsType_def statisticsData_def get_put is_object_put)

lemma numericIndices_Nil: "numericIndices b [] = []"
  by (simp add: numericIndices_def)

lemma pie_error_has_no_colors:
  "get_prop (statisticsData (createPieChartErrorResponse m)) ''colors'' = JUndefined"
  by (simp add: statisticsData_def createPieChartErrorResponse_def)

lemma waterfall_error_has_no_texts:
  "get_prop (statisticsData (createWaterfallChartErrorResponse m)) ''totalLabelText'' = JUndefined"
  by (simp add: statisticsData_def createWaterfallChartErrorResponse_def)

lemma error_response_type: "statisticsType (createErrorResponse m) = JStr ''pie_chart''"
  by (simp add: statisticsType_def createErrorResponse_def)

lemma pie_pairs_kept:
  assumes "get_prop response ''statistics'' = stats"
    and "get_prop stats ''type'' = JStr ''pie_chart''"
    and "get_prop stats ''data'' = data"
    and "get_prop data ''labels'' = JArr ls"
    and "get_prop data ''values'' = JArr vs"
    and "\<not> list_ex (throws b) vs"
    and "numericIndices b vs \<noteq> []"
  shows "\<exists>r. validateResponse b response = Inr r
     \<and> (\<forall>m. r \<noteq> createPieChartErrorResponse m)
     \<and> statisticsType r = JStr ''pie_chart''
     \<and> get_prop (statisticsData r) ''labels'' = JArr (map (index ls) (numericIndices b vs))
     \<and> get_prop (statisticsData r) ''values'' = JArr (map JNum (keptValues b vs))"
proof -
  define d where "d = addDefaultColors
       (put (put data ''labels'' (JArr (map (index ls) (numericIndices b vs))))
          ''values'' (JArr (map (\<lambda>j. JNum (coerced b (vs ! j))) (numericIndices b vs))))"
  define r where "r = put (withInterpretation response) ''statistics'' (put stats ''data'' d)"
  have so: "is_object stats" using assms(2) by (rule receiver_of_string)
  then have ro: "is_object (withInterpretation response)"
    using assms(1) by (simp add: is_object_withInterpretation receiver_of_object)
  have dobj: "is_object data" using assms(4) by (rule receiver_of_array)
  have res: "validateResponse b response = Inr r"
    using validateResponse_pie [OF assms(1-6)] assms(7) by (simp add: r_def d_def)
  have ty: "statisticsType r = JStr ''pie_chart''"
    unfolding r_def by (simp add: accepted_fields [OF ro so] assms(2))
  have dat: "statisticsData r = d"
    unfolding r_def by (simp add: accepted_fields [OF ro so])
  have labels: "get_prop d ''labels'' = JArr (map (index ls) (numericIndices b vs))"
    unfolding d_def by (simp add: get_addDefaultColors get_put is_object_put dobj)
  have vals: "get_prop d ''values'' = JArr (map JNum (keptValues b vs))"
    unfolding d_def by (simp add: get_addDefaultColors get_put is_object_put dobj keptValues_def comp_def)
  have "get_prop d ''colors'' \<noteq> JUndefined"
    unfolding d_def by (rule colors_addDefaultColors) (simp add: is_object_put dobj)
  then have "r \<noteq> createPieChartErrorResponse m" for m
    using dat pie_error_has_no_colors [of m] by auto
  with res ty dat labels vals show ?thesis by simp
qed

lemma waterfall_pairs_kept:
  assumes "get_prop response ''statistics'' = stats"
    and "get_prop stats ''type'' = JStr ''waterfall_chart''"
    and "get_prop stats ''data'' = data"
    and "get_prop data ''categories'' = JArr cs"
    and "get_prop data ''values'' = JArr vs"
    and "\<not> list_ex (throws b) vs"
    and "2 \<le> length (numericIndices b vs)"
    and "ensureStartEnd b (keepCategories cs (numericIndices b vs)) (keptValues b vs) = Inr renamed"
  shows "\<exists>r. validateResponse b response = Inr r
     \<and> (\<forall>m. r \<noteq> createWaterfallChartErrorResponse m)
     \<and> statisticsType r = JStr ''waterfall_chart''
     \<and> get_prop (statisticsData r) ''categories'' = JArr renamed
     \<and> get_prop (statisticsData r) ''values'' = JArr (map JNum (keptValues b vs))
     \<and> get_prop (statisticsData r) ''increaseLabelText'' =
         (if truthy (get_prop data ''increaseLabelText'') then get_prop data ''increaseLabelText''
          else JStr ''Increase'')
     \<and> get_prop (statisticsData r) ''decreaseLabelText'' =
         (if truthy (get_prop data ''decreaseLabelText'') then get_prop data ''decreaseLabelText''
          else JStr ''Decrease'')
     \<and> get_prop (statisticsData r) ''totalLabelText'' =
         (if truthy (get_prop data ''totalLabelText'') then get_prop data ''totalLabelText''
          else JStr ''Total'')"
proof -
  define d0 where "d0 = put (put data ''categories'' (JArr renamed)) ''values''
                        (JArr (map (\<lambda>j. JNum (coerced b (vs ! j))) (numericIndices b vs)))"
  define d where "d = defaultText ''totalLabelText'' ''Total''
                 (defaultText ''decreaseLabelText'' ''Decrease''
                   (defaultText ''increaseLabelText'' ''Increase'' d0))"
  define r where "r = put (withInterpretation response) ''statistics'' (put stats ''data'' d)"
  have so: "is_object stats" using assms(2) by (rule receiver_of_string)
  then have ro: "is_object (withInterpretation response)"
    using assms(1) by (simp add: is_object_withInterpretation receiver_of_object)
  have dobj: "is_object data" using assms(4) by (rule receiver_of_array)
  then have d0obj: "is_object d0" by (simp add: d0_def is_object_put)
  have res: "validateResponse b response = Inr r"
    using validateResponse_waterfall [OF assms(1-6)] assms(7,8)
    by (simp add: r_def d_def d0_def keptValues_def)
  have ty: "statisticsType r = JStr ''waterfall_chart''"
    unfolding r_def by (simp add: accepted_fields [OF ro so] assms(2))
  have dat: "statisticsData r = d"
    unfolding r_def by (simp add: accepted_fields [OF ro so])
  have cats: "get_prop d ''categories'' = JArr renamed"
    unfolding d_def d0_def by (simp add: get_defaultText_other get_put is_object_put dobj)
  have vals: "get_prop d ''values'' = JArr (map JNum (keptValues b vs))"
    unfolding d_def d0_def
    by (simp add: get_defaultText_other get_put is_object_put dobj keptValues_def comp_def)
  have inc: "get_prop d ''increaseLabelText'' =
         (if truthy (get_prop data ''increaseLabelText'') then get_prop data ''increaseLabelText''
          else JStr ''Increase'')"
    unfolding d_def
    by (simp add: get_defaultText_other get_defaultText_same d0obj)
       (simp add: d0_def get_put is_object_put dobj)
  have dec: "get_prop d ''decreaseLabelText'' =
         (if truthy (get_prop data ''decreaseLabelText'') then get_prop data ''decreaseLabelText''
          else JStr ''Decrease'')"
    unfolding d_def
    by (simp add: get_defaultText_other get_defaultText_same d0obj is_object_defaultText)
       (simp add: d0_def get_put is_object_put dobj)
  have tot: "get_prop d ''totalLabelText'' =
         (if truthy (get_prop data ''totalLabelText'') then get_prop data ''totalLabelText''
          else JStr ''Total'')"
    unfolding d_def
    by (simp add: get_defaultText_other get_defaultText_same d0obj is_object_defaultText)
       (simp add: d0_def get_put is_object_put dobj)
  have "truthy (get_prop d ''totalLabelText'')"
    by (simp add: tot)
  then have "get_prop d ''totalLabelText'' \<noteq> JUndefined" by auto
  then have "r \<noteq> createWaterfallChartErrorResponse m" for m
    using dat waterfall_error_has_no_texts [of m] by auto
  with res ty dat cats vals inc dec tot show ?thesis by simp
qed

lemma take_one_nth: "xs \<noteq> [] \<Longrightarrow> (take 1 xs = [v]) = (xs ! 0 = v)"
  by (cases xs) simp_all

lemma trim_na: "trim ''n/a'' = ''n/a''"
  by code_simp

declare retryLoop.simps [simp del]
declare strip.simps [simp del]

lemma leading_Nil: "leading toks [] = 0"
  by (auto simp: leading_def find_Some_iff split: option.splits)

lemma strip_Nil: "strip toks [] = []"
  by (subst strip.simps) (simp add: leading_Nil)

lemma white_space_prefix_free:
  "list_all (\<lambda>t. list_all (\<lambda>w. take (length t) w = t \<longrightarrow> t = w) white_space) white_space"
  by code_simp

lemma white_space_nonempty: "list_all (\<lambda>w. w \<noteq> []) white_space"
  by code_simp

lemma token_nonempty: "w \<in> set white_space \<Longrightarrow> w \<noteq> []"
  using white_space_nonempty by (simp add: list_all_iff)

lemma leading_token:
  assumes "w \<in> set white_space"
  shows "leading white_space (w @ rest) = length w"
proof -
  have w: "w \<noteq> []" using assms by (rule token_nonempty)
  have "\<exists>t\<in>set white_space. t \<noteq> [] \<and> take (length t) (w @ rest) = t"
    using assms w by auto
  then obtain t where found: "find (\<lambda>t. t \<noteq> [] \<and> take (length t) (w @ rest) = t) white_space = Some t"
    by (cases "find (\<lambda>t. t \<noteq> [] \<and> take (length t) (w @ rest) = t) white_space")
       (auto simp: find_None_iff)
  then have t: "t \<in> set white_space" and pre: "take (length t) (w @ rest) = t"
    by (auto simp: find_Some_iff)
  have free: "\<And>a c. a \<in> set white_space \<Longrightarrow> c \<in> set white_space \<Longrightarrow>
                take (length a) c = a \<Longrightarrow> a = c"
    using white_space_prefix_free by (simp add: list_all_iff)
  have "t = w"
  proof (cases "length t \<le> length w")
    case True
    with pre have "take (length t) w = t" by simp
    then show ?thesis using free [OF t assms] by simp
  next
    case False
    then have "take (length w) t = take (length w) (take (length t) (w @ rest))"
      using pre by simp
    also have "\<dots> = w" using False by (simp add: min_def)
    finally have "w = t" using free [OF assms t] by simp
    then show ?thesis by simp
  qed
  with found show ?thesis by (simp add: leading_def)
qed

lemma strip_white_space:
  "set ws \<subseteq> set white_space \<Longrightarrow> strip white_space (concat ws) = []"
proof (induction ws)
  case Nil
  show ?case by (simp add: strip_Nil)
next
  case (Cons w ws)
  then have w: "w \<in> set white_space" and rest: "strip white_space (concat ws) = []"
    by simp_all
  have "strip white_space (w @ concat ws) = strip white_space (concat ws)"
    using token_nonempty [OF w]
    by (subst strip.simps) (simp add: leading_token [OF w])
  with rest show ?case by simp
qed

lemma trim_white_space: "set ws \<subseteq> set white_space \<Longrightarrow> trim (concat ws) = []"
  by (simp add: trim_def trimStart_def trimEnd_def strip_white_space strip_Nil)

lemma retryLoop_exhausted:
  assumes "checkOutput b (responses_create env calls (shapeRequest ct sch q data 0)) = None"
    and "checkOutput b (responses_create env
           (calls @ [ResponsesCreate (shapeRequest ct sch q data 0)])
           (shapeRequest ct sch q data 1)) = None"
    and "checkOutput b (responses_create env
           (calls @ [ResponsesCreate (shapeRequest ct sch q data 0),
                     ResponsesCreate (shapeRequest ct sch q data 1)])
           (shapeRequest ct sch q data 2)) = None"
  shows "retryLoop b env ct sch q data 0 calls =
     (None, 3, calls @ [ResponsesCreate (shapeRequest ct sch q data 0),
                        ResponsesCreate (shapeRequest ct sch q data 1),
                        ResponsesCreate (shapeRequest ct sch q data 2)])"
proof -
  have third: "retryLoop b env ct sch q data 2
       (calls @ [ResponsesCreate (shapeRequest ct sch q data 0),
                 ResponsesCreate (shapeRequest ct sch q data 1)]) =
     (None, 3, calls @ [ResponsesCreate (shapeRequest ct sch q data 0),
                        ResponsesCreate (shapeRequest ct sch q data 1),
                        ResponsesCreate (shapeRequest ct sch q data 2)])"
    using assms(3) by (subst retryLoop.simps) (simp add: maxRetries_def Let_def)
  have second: "retryLoop b env ct sch q data 1
       (calls @ [ResponsesCreate (shapeRequest ct sch q data 0)]) =
     (None, 3, calls @ [ResponsesCreate (shapeRequest ct sch q data 0),
                        ResponsesCreate (shapeRequest ct sch q data 1),
                        ResponsesCreate (shapeRequest ct sch q data 2)])"
    using assms(2) third
    by (subst retryLoop.simps) (simp add: maxRetries_def Let_def numeral_2_eq_2)
  show ?thesis
    using assms(1) second
    by (subst retryLoop.simps) (simp add: maxRetries_def Let_def)
qed

lemma retryLoop_calls:
  "retryLoop b env ct sch q data cr calls = (res, cr', calls') \<Longrightarrow>
   \<exists>new. calls' = calls @ new \<and> length new \<le> max 1 (maxRetries - cr)
     \<and> (\<forall>c\<in>set new. \<exists>n. c = ResponsesCreate (shapeRequest ct sch q data n))"
proof (induction b env ct sch q data cr calls arbitrary: res cr' calls' rule: retryLoop.induct)
  case (1 b env ct sch q data cr calls)
  let ?req = "shapeRequest ct sch q data cr"
  show ?case
  proof (cases "checkOutput b (responses_create env calls ?req)")
    case (Some v)
    with "1.prems" have "calls' = calls @ [ResponsesCreate ?req]"
      by (subst (asm) retryLoop.simps) (auto simp: Let_def)
    then show ?thesis by auto
  next
    case None
    show ?thesis
    proof (cases "Suc cr < maxRetries")
      case True
      with None "1.prems" have rec: "retryLoop b env ct sch q data (Suc cr)
          (calls @ [ResponsesCreate ?req]) = (res, cr', calls')"
        by (subst (asm) retryLoop.simps) (simp add: Let_def)
      from "1.IH" [OF refl refl None True rec]
      obtain new where new: "calls' = (calls @ [ResponsesCreate ?req]) @ new"
        "length new \<le> max 1 (maxRetries - Suc cr)"
        "\<forall>c\<in>set new. \<exists>n. c = ResponsesCreate (shapeRequest ct sch q data n)"
        by blast
      have "calls' = calls @ (ResponsesCreate ?req # new)" using new(1) by simp
      moreover have "length (ResponsesCreate ?req # new) \<le> max 1 (maxRetries - cr)"
        using new(2) True by simp
      moreover have "\<forall>c\<in>set (ResponsesCreate ?req # new).
          \<exists>n. c = ResponsesCreate (shapeRequest ct sch q data n)"
        using new(3) by auto
      ultimately show ?thesis by blast
    next
      case False
      with None "1.prems" have "calls' = calls @ [ResponsesCreate ?req]"
        by (subst (asm) retryLoop.simps) (auto simp: Let_def)
      then show ?thesis by auto
    qed
  qed
qed

lemma retryLoop_valid:
  "retryLoop b env ct sch q data cr calls = (Some v, cr', calls') \<Longrightarrow>
   \<exists>calls0 n. checkOutput b (responses_create env calls0 (shapeRequest ct sch q data n)) = Some v"
proof (induction b env ct sch q data cr calls arbitrary: cr' calls' rule: retryLoop.induct)
  case (1 b env ct sch q data cr calls)
  let ?req = "shapeRequest ct sch q data cr"
  show ?case
  proof (cases "checkOutput b (responses_create env calls ?req)")
    case (Some w)
    with "1.prems" have "w = v"
      by (subst (asm) retryLoop.simps) (auto simp: Let_def)
    with Some show ?thesis by blast
  next
    case None
    show ?thesis
    proof (cases "Suc cr < maxRetries")
      case True
      with None "1.prems" have rec: "retryLoop b env ct sch q data (Suc cr)
          (calls @ [ResponsesCreate ?req]) = (Some v, cr', calls')"
        by (subst (asm) retryLoop.simps) (simp add: Let_def)
      from "1.IH" [OF refl refl None True rec] show ?thesis .
    next
      case False
      with None "1.prems" show ?thesis
        by (subst (asm) retryLoop.simps) (simp add: Let_def)
    qed
  qed
qed

lemma lower_letter:
  "d \<in> set ''adelnorst'' \<Longrightarrow> (lower_char c = d) = (c = d \<or> c = upper_char d)"
  apply (simp add: upper_char_def)
  apply (elim disjE)
  apply (simp_all add: lower_char_def)
  done

lemma starts_lower:
  "set t \<subseteq> set ''adelnorst'' \<Longrightarrow>
   (take (length t) (map lower_char s) = t) = startsIgnoringCase t s"
proof (induction t s rule: startsIgnoringCase.induct)
  case (1 s)
  show ?case by simp
next
  case (2 d ds)
  show ?case by simp
next
  case (3 d ds c cs)
  then have d: "d \<in> set ''adelnorst''" and ds: "set ds \<subseteq> set ''adelnorst''" by simp_all
  from "3.IH" [OF ds] lower_letter [OF d, of c] show ?case by simp
qed

lemma lower_includes:
  "set t \<subseteq> set ''adelnorst'' \<Longrightarrow> includes_js (map lower_char s) t = occursIgnoringCase t s"
proof (induction s)
  case Nil
  show ?case by simp
next
  case (Cons c cs)
  from Cons.IH [OF Cons.prems] starts_lower [OF Cons.prems, of "c # cs"]
  show ?case by simp
qed

lemma containsText_mentions:
  assumes "set t \<subseteq> set ''adelnorst''" and "unicodeLowerCase b t"
  shows "containsText b c t = mentions c t"
proof (cases c)
  case (JStr s)
  show ?thesis
  proof (cases "isASCII s")
    case True
    with JStr show ?thesis
      by (simp add: containsText_def mentions_def toLowerCase_def lower_includes [OF assms(1)])
  next
    case False
    with JStr assms(2) show ?thesis
      by (simp add: containsText_def mentions_def toLowerCase_def unicodeLowerCase_def)
  qed
qed (simp_all add: containsText_def mentions_def)

lemma engine_unicodeLowerCase:
  "set t \<subseteq> set ''adelnorst'' \<Longrightarrow> unicodeLowerCase engine t"
  by (simp add: unicodeLowerCase_def engine_def lower_includes)

lemma retryLoop_requests:
  "retryLoop b env ct sch q data cr calls = (res, cr', calls') \<Longrightarrow>
   \<exists>n. 1 \<le> n \<and> cr + n \<le> max (Suc cr) maxRetries
     \<and> calls' = calls @ map (\<lambda>i. ResponsesCreate (shapeRequest ct sch q data i)) [cr..<cr + n]
     \<and> (res = None \<longrightarrow> cr' = cr + n \<and> \<not> cr' < maxRetries)"
proof (induction b env ct sch q data cr calls arbitrary: res cr' calls' rule: retryLoop.induct)
  case (1 b env ct sch q data cr calls)
  let ?req = "shapeRequest ct sch q data cr"
  let ?f = "\<lambda>i. ResponsesCreate (shapeRequest ct sch q data i)"
  show ?case
  proof (cases "checkOutput b (responses_create env calls ?req)")
    case (Some v)
    with "1.prems" have "calls' = calls @ [ResponsesCreate ?req]" "res = Some v"
      by (subst (asm) retryLoop.simps; auto simp: Let_def)+
    then show ?thesis by (intro exI [of _ 1]) simp
  next
    case None
    show ?thesis
    proof (cases "Suc cr < maxRetries")
      case True
      with None "1.prems" have rec: "retryLoop b env ct sch q data (Suc cr)
          (calls @ [ResponsesCreate ?req]) = (res, cr', calls')"
        by (subst (asm) retryLoop.simps) (simp add: Let_def)
      from "1.IH" [OF refl refl None True rec]
      obtain n where n: "1 \<le> n" "Suc cr + n \<le> max (Suc (Suc cr)) maxRetries"
        "calls' = (calls @ [ResponsesCreate ?req]) @ map ?f [Suc cr..<Suc cr + n]"
        "res = None \<longrightarrow> cr' = Suc cr + n \<and> \<not> cr' < maxRetries"
        by blast
      have "[cr..<cr + Suc n] = cr # [Suc cr..<Suc cr + n]"
        by (simp add: upt_conv_Cons)
      then have "calls' = calls @ map ?f [cr..<cr + Suc n]" using n(3) by simp
      moreover have "cr + Suc n \<le> max (Suc cr) maxRetries" using n(2) True by simp
      moreover have "res = None \<longrightarrow> cr' = cr + Suc n \<and> \<not> cr' < maxRetries" using n(4) by auto
      ultimately show ?thesis by (intro exI [of _ "Suc n"]) auto
    next
      case False
      with None "1.prems" have "calls' = calls @ [ResponsesCreate ?req]" "cr' = Suc cr"
        by (subst (asm) retryLoop.simps; auto simp: Let_def)+
      with False show ?thesis by (intro exI [of _ 1]) simp
    qed
  qed
qed

lemma fallbackResponse_cases:
  "fallbackResponse ct n = (if ct = ''waterfall_chart'' then waterfallFallback n else pieFallback n)"
  by (simp add: fallbackResponse_def waterfallFallback_def pieFallback_def)

lemma generateAnalysis_classified:
  assumes "data \<noteq> []"
    and "responses_create env calls (classifyRequest q data) = Inr output_text"
  shows "generateAnalysis b env data q calls =
     (case retryLoop b env (toLowerCase b (trim output_text))
             (if toLowerCase b (trim output_text) = ''waterfall_chart''
              then simpleWaterfallChartSchema else simplePieChartSchema)
             q data 0 (calls @ [ResponsesCreate (classifyRequest q data)]) of
        (None, currentRetry, calls2) \<Rightarrow>
          (Inr (fallbackResponse (toLowerCase b (trim output_text)) (length data)), calls2)
      | (Some validResponse, currentRetry, calls2) \<Rightarrow> (Inr validResponse, calls2))"
  using assms by (simp add: generateAnalysis_def classifyRequest_def Let_def)

lemma generateAnalysis_exhausted:
  assumes "data \<noteq> []"
    and "responses_create env calls (classifyRequest q data) = Inr output_text"
    and "ct = toLowerCase b (trim output_text)"
    and "sch = (if ct = ''waterfall_chart'' then simpleWaterfallChartSchema
                else simplePieChartSchema)"
    and "calls1 = calls @ [ResponsesCreate (classifyRequest q data)]"
    and "checkOutput b (responses_create env calls1 (shapeRequest ct sch q data 0)) = None"
    and "checkOutput b (responses_create env
           (calls1 @ [ResponsesCreate (shapeRequest ct sch q data 0)])
           (shapeRequest ct sch q data 1)) = None"
    and "checkOutput b (responses_create env
           (calls1 @ [ResponsesCreate (shapeRequest ct sch q data 0),
                      ResponsesCreate (shapeRequest ct sch q data 1)])
           (shapeRequest ct sch q data 2)) = None"
  shows "generateAnalysis b env data q calls =
     (Inr (fallbackResponse ct (length data)),
      calls1 @ [ResponsesCreate (shapeRequest ct sch q data 0),
                ResponsesCreate (shapeRequest ct sch q data 1),
                ResponsesCreate (shapeRequest ct sch q data 2)])"
  using retryLoop_exhausted [OF assms(6-8)] assms(3-5)
  by (simp add: generateAnalysis_classified [OF assms(1,2)])

lemma flagged_fails: "flagged b answer \<Longrightarrow> checkOutput b answer = None"
  by (auto simp: flagged_def checkOutput_def noErrorMessage_def Let_def
           split: sum.splits jsval.splits)

lemma retryLoop_first:
  "checkOutput b (responses_create env calls (shapeRequest ct sch q data cr)) = Some v \<Longrightarrow>
   retryLoop b env ct sch q data cr calls =
     (Some v, cr, calls @ [ResponsesCreate (shapeRequest ct sch q data cr)])"
  by (subst retryLoop.simps) (simp add: Let_def)

lemma retryLoop_failed:
  "checkOutput b (responses_create env calls (shapeRequest ct sch q data cr)) = None \<Longrightarrow>
   retryLoop b env ct sch q data cr calls =
     (if Suc cr < maxRetries
      then retryLoop b env ct sch q data (Suc cr)
             (calls @ [ResponsesCreate (shapeRequest ct sch q data cr)])
      else (None, Suc cr, calls @ [ResponsesCreate (shapeRequest ct sch q data cr)]))"
  by (subst retryLoop.simps) (simp add: Let_def)

lemma trim_question: "trim ''How many invoices?'' = ''How many invoices?''"
  by code_simp

lemma trim_select: "trim ''select 1'' = ''select 1''"
  by code_simp

lemma upper_select: "includes_js (toUpperCase engine ''select 1'') ''SELECT''"
  by code_simp

lemma lower_waterfall: "toLowerCase b (trim ''waterfall_chart'') = ''waterfall_chart''"
  by code_simp

lemma lower_pie: "toLowerCase b (trim ''pie_chart'') = ''pie_chart''"
  by code_simp

lemma lower_bar: "toLowerCase b (trim '' Bar_Chart'') = ''bar_chart''"
  by code_simp

lemma scripted_classify:
  "responses_create (scripted s r c t) calls (classifyRequest q d) = Inr c"
  by (simp add: scripted_def classifyRequest_def)

lemma scripted_shape:
  "responses_create (scripted s r c t) calls (shapeRequest ct sch q d n) = Inr t"
  by (simp add: scripted_def shapeRequest_def shapePrompt_def Let_def)

lemma scripted_sql:
  "responses_create (scripted s r c t) calls \<lparr>prompt_of = SqlQueryPrompt q, schema_of = None\<rparr> = Inr s"
  by (simp add: scripted_def)

lemma scripted_rows: "pool_query (scripted s r c t) calls query ps = Inr r"
  by (simp add: scripted_def)

lemma parse_not_json: "JSON_parse engine ''not json'' = None"
  by (simp add: engine_def sampleTexts_def errorRatesText_def paymentsText_def balanceText_def
        yearsText_def)

lemma not_json_fails: "checkOutput engine (Inr ''not json'') = None"
  by (simp add: checkOutput_def parse_not_json validateResponse_def assignInterpretation_def)

lemma parse_errorRates: "JSON_parse engine errorRatesText = Some errorRates"
  by (simp add: engine_def sampleTexts_def)

lemma parse_payments: "JSON_parse engine paymentsText = Some payments"
  by (simp add: engine_def sampleTexts_def errorRatesText_def paymentsText_def)

lemma parse_balance: "JSON_parse engine balanceText = Some balanceWaterfall"
  by (simp add: engine_def sampleTexts_def errorRatesText_def paymentsText_def balanceText_def
        yearsText_def)

lemma validate_errorRates: "validateResponse b errorRates = Inr errorRatesValidated"
  by (simp add: validateResponse_def errorRates_def errorRatesValidated_def pie_branch_def
        Number_def index_def addDefaultColors_def defaultColors_def Let_def)

lemma validate_payments: "validateResponse b payments = Inr paymentsValidated"
  by (simp add: validateResponse_def payments_def paymentsValidated_def pie_branch_def
        Number_def index_def addDefaultColors_def defaultColors_def Let_def)

lemma validate_balance: "validateResponse b balanceWaterfall = Inr balanceValidated"
  by (simp add: validateResponse_def balanceWaterfall_def balanceValidated_def
        waterfall_branch_def Number_def index_def keepCategories_def ensureStartEnd_def
        lowerCased_def toLowerCase_def isASCII_def lower_char_def defaultText_def Let_def)

lemma balance_accepted: "checkOutput engine (Inr balanceText) = Some balanceValidated"
  unfolding checkOutput_def
  by (simp add: parse_balance validate_balance)
     (simp add: noErrorMessage_def balanceValidated_def)

lemma errorRates_flagged: "flagged engine (Inr errorRatesText)"
  by (simp add: flagged_def parse_errorRates validate_errorRates errorRatesValidated_def)

lemma payments_accepted: "checkOutput engine (Inr paymentsText) = Some paymentsValidated"
  unfolding checkOutput_def
  by (simp add: parse_payments validate_payments)
     (simp add: noErrorMessage_def paymentsValidated_def)

lemma sql_generated:
  "generateSqlQuery engine (scripted ''select 1'' r c t) ''How many invoices?'' [] =
     (Inr ''select 1'',
      [ResponsesCreate \<lparr>prompt_of = SqlQueryPrompt ''How many invoices?'', schema_of = None\<rparr>])"
  by (simp add: generateSqlQuery_def trim_question scripted_sql trim_select upper_select Let_def)

lemma rows_returned:
  "makeQuery (scripted ''select 1'' r c t) ''select 1'' [] calls =
     (Inr r, calls @ [PoolQuery ''select 1'' []])"
  by (simp add: makeQuery_def trim_select scripted_rows)

lemma error_responses_valid:
  "structurallyValid (createErrorResponse m)"
  "structurallyValid (createPieChartErrorResponse m)"
  "structurallyValid (createWaterfallChartErrorResponse m)"
  "isAnalysisResult (createErrorResponse m)"
  "isAnalysisResult (createPieChartErrorResponse m)"
  "isAnalysisResult (createWaterfallChartErrorResponse m)"
  by (simp_all add: structurallyValid_def isAnalysisResult_def statisticsType_def
        statisticsData_def sameLength_def createErrorResponse_def
        createPieChartErrorResponse_def createWaterfallChartErrorResponse_def)

lemma canned_responses_valid:
  "structurallyValid noDataResponse" "isAnalysisResult noDataResponse"
  "structurallyValid (fallbackResponse ct n)" "isAnalysisResult (fallbackResponse ct n)"
  by (simp_all add: structurallyValid_def isAnalysisResult_def statisticsType_def
        statisticsData_def sameLength_def noDataResponse_def fallbackResponse_def)

lemma withInterpretation_string:
  "is_object r \<Longrightarrow> is_string (get_prop (withInterpretation r) ''interpretation'')"
  by (cases r) (simp_all add: withInterpretation_def Let_def update_conv')

lemma ensureStartEnd_length:
  "ensureStartEnd b cats nums = Inr renamed \<Longrightarrow> length renamed = length cats"
  by (auto simp: ensureStartEnd_def Let_def split: if_splits sum.splits)

lemma sequence_js_length: "sequence_js rs = Inr xs \<Longrightarrow> length xs = length rs"
  by (induction rs arbitrary: xs) (auto split: sum.splits)

lemma accepted_valid:
  assumes "is_object R" and "is_object stats" and "is_object d"
    and "is_string (get_prop R ''interpretation'')"
    and "get_prop stats ''type'' = JStr ''pie_chart'' \<or> get_prop stats ''type'' = JStr ''waterfall_chart''"
  shows "isAnalysisResult (put R ''statistics'' (put stats ''data'' d))"
  using assms by (simp add: isAnalysisResult_def accepted_fields)

lemma pie_branch_valid:
  assumes ro: "is_object r"
    and st: "get_prop r ''statistics'' = stats"
    and ty: "get_prop stats ''type'' = JStr ''pie_chart''"
    and interp: "is_string (get_prop r ''interpretation'')"
    and res: "pie_branch b r = Inr v"
  shows "structurallyValid v \<and> isAnalysisResult v"
proof -
  let ?data = "get_prop stats ''data''"
  let ?labels = "get_prop ?data ''labels''"
  let ?vals = "get_prop ?data ''values''"
  have so: "is_object stats" using ty by (rule receiver_of_string)
  show ?thesis
  proof (cases "isArray ?labels \<and> isArray ?vals")
    case False
    with res st have "v = createPieChartErrorResponse
        ''Invalid pie chart data: labels and values must be arrays''"
      by (auto simp: pie_branch_def Let_def)
    then show ?thesis by (simp add: error_responses_valid)
  next
    case True
    then obtain ls vs where ls: "?labels = JArr ls" and vs: "?vals = JArr vs"
      by (cases ?labels; cases ?vals) auto
    have dobj: "is_object ?data" using ls by (rule receiver_of_array)
    show ?thesis
    proof (cases "list_ex (throws b) vs")
      case True
      then obtain e where "validIndices b vs 0 = Inl e"
        using validIndices_throws by blast
      with res st ls vs show ?thesis
        by (simp add: pie_branch_def Let_def)
    next
      case False
      note eq = pie_branch_kept [OF ro st refl ls vs False]
      show ?thesis
      proof (cases "numericIndices b vs = []")
        case True
        with eq res show ?thesis by (auto simp: error_responses_valid)
      next
        case nonempty: False
        let ?d = "addDefaultColors
                (put (put ?data ''labels'' (JArr (map (index ls) (numericIndices b vs))))
                   ''values'' (JArr (map (\<lambda>j. JNum (coerced b (vs ! j))) (numericIndices b vs))))"
        from eq res nonempty have v: "v = put r ''statistics'' (put stats ''data'' ?d)"
          by simp
        have d: "is_object ?d" by (simp add: is_object_addDefaultColors is_object_put dobj)
        have "structurallyValid v"
          unfolding v structurallyValid_def
          by (simp add: accepted_fields [OF ro so] ty get_addDefaultColors get_put
                is_object_put dobj sameLength_def)
        moreover have "isAnalysisResult v"
          unfolding v using ty by (intro accepted_valid [OF ro so d interp]) simp
        ultimately show ?thesis by simp
      qed
    qed
  qed
qed

lemma waterfall_branch_valid:
  assumes ro: "is_object r"
    and st: "get_prop r ''statistics'' = stats"
    and ty: "get_prop stats ''type'' = JStr ''waterfall_chart''"
    and interp: "is_string (get_prop r ''interpretation'')"
    and res: "waterfall_branch b r = Inr v"
  shows "structurallyValid v \<and> isAnalysisResult v"
proof -
  let ?data = "get_prop stats ''data''"
  let ?cats = "get_prop ?data ''categories''"
  let ?vals = "get_prop ?data ''values''"
  have so: "is_object stats" using ty by (rule receiver_of_string)
  show ?thesis
  proof (cases "isArray ?cats \<and> isArray ?vals")
    case False
    with res st have "v = createWaterfallChartErrorResponse
        ''Invalid waterfall chart data: categories and values must be arrays''"
      by (auto simp: waterfall_branch_def Let_def)
    then show ?thesis by (simp add: error_responses_valid)
  next
    case True
    then obtain cs vs where cs: "?cats = JArr cs" and vs: "?vals = JArr vs"
      by (cases ?cats; cases ?vals) auto
    have dobj: "is_object ?data" using cs by (rule receiver_of_array)
    show ?thesis
    proof (cases "list_ex (throws b) vs")
      case True
      then obtain e where "validIndices b vs 0 = Inl e"
        using validIndices_throws by blast
      with res st cs vs show ?thesis
        by (simp add: waterfall_branch_def Let_def)
    next
      case False
      note eq = waterfall_branch_kept [OF ro st refl cs vs False]
      show ?thesis
      proof (cases "length (numericIndices b vs) < 2")
        case True
        with eq res show ?thesis by (auto simp: error_responses_valid)
      next
        case enough: False
        let ?kept = "keepCategories cs (numericIndices b vs)"
        let ?nums = "map (\<lambda>j. coerced b (vs ! j)) (numericIndices b vs)"
        from eq res enough obtain renamed
          where ren: "ensureStartEnd b ?kept ?nums = Inr renamed"
          by (cases "ensureStartEnd b ?kept ?nums") auto
        let ?d0 = "put (put ?data ''categories'' (JArr renamed)) ''values''
                        (JArr (map (\<lambda>j. JNum (coerced b (vs ! j))) (numericIndices b vs)))"
        let ?d = "defaultText ''totalLabelText'' ''Total''
                 (defaultText ''decreaseLabelText'' ''Decrease''
                   (defaultText ''increaseLabelText'' ''Increase'' ?d0))"
        from eq res enough ren have v: "v = put r ''statistics'' (put stats ''data'' ?d)"
          by simp
        have len: "length renamed = length (numericIndices b vs)"
          using ensureStartEnd_length [OF ren] by (simp add: keepCategories_def)
        have d: "is_object ?d" by (simp add: is_object_defaultText is_object_put dobj)
        have "structurallyValid v"
          unfolding v structurallyValid_def
          using enough len
          by (simp add: accepted_fields [OF ro so] ty get_defaultText_other get_put
                is_object_put dobj sameLength_def)
        moreover have "isAnalysisResult v"
          unfolding v using ty by (intro accepted_valid [OF ro so d interp]) simp
        ultimately show ?thesis by simp
      qed
    qed
  qed
qed

lemma validateResponse_valid:
  assumes "validateResponse b raw = Inr v"
  shows "structurallyValid v \<and> isAnalysisResult v"
proof (cases "is_object raw")
  case False
  with assms have "v = createErrorResponse
      ''Invalid response structure: missing statistics or chart type''"
    by (cases raw) (auto simp: validateResponse_def assignInterpretation_def Let_def)
  then show ?thesis by (simp add: error_responses_valid)
next
  case True
  let ?r = "withInterpretation raw"
  let ?stats = "get_prop raw ''statistics''"
  let ?ty = "get_prop ?stats ''type''"
  have ro: "is_object ?r" using True by (simp add: is_object_withInterpretation)
  have st: "get_prop ?r ''statistics'' = ?stats" by (simp add: get_withInterpretation)
  have interp: "is_string (get_prop ?r ''interpretation'')"
    using True by (rule withInterpretation_string)
  note eq = validateResponse_object [OF True, of b]
  show ?thesis
  proof (cases "?ty = JStr ''pie_chart'' \<and> truthy (get_prop ?stats ''data'')")
    case True
    then have ts: "truthy ?stats" by (cases ?stats) auto
    show ?thesis
    proof (cases "pie_branch b ?r")
      case (Inl e)
      with eq True ts assms have "v = createErrorResponse (''Validation error: '' @ err_message e)"
        by (simp add: Let_def)
      then show ?thesis by (simp add: error_responses_valid)
    next
      case (Inr w)
      with eq True ts assms have "w = v" by (simp add: Let_def)
      with Inr True show ?thesis
        using pie_branch_valid [OF ro st _ interp] by blast
    qed
  next
    case notpie: False
    show ?thesis
    proof (cases "?ty = JStr ''waterfall_chart'' \<and> truthy (get_prop ?stats ''data'')")
      case True
      then have ts: "truthy ?stats" by (cases ?stats) auto
      show ?thesis
      proof (cases "waterfall_branch b ?r")
        case (Inl e)
        with eq True ts assms have "v = createErrorResponse (''Validation error: '' @ err_message e)"
          by (simp add: Let_def)
        then show ?thesis by (simp add: error_responses_valid)
      next
        case (Inr w)
        with eq True ts assms have "w = v" by (simp add: Let_def)
        with Inr True show ?thesis
          using waterfall_branch_valid [OF ro st _ interp] by blast
      qed
    next
      case False
      with notpie eq assms have "\<exists>m. v = createErrorResponse m"
        by (auto simp: Let_def split: if_splits sum.splits)
      then show ?thesis by (auto simp: error_responses_valid)
    qed
  qed
qed

lemma checkOutput_valid:
  "checkOutput b answer = Some v \<Longrightarrow> structurallyValid v \<and> isAnalysisResult v"
  by (auto simp: checkOutput_def Let_def split: sum.splits if_splits
           dest: validateResponse_valid)

lemma shapeRequest_isShapeCall: "isShapeCall (ResponsesCreate (shapeRequest ct sch q d n))"
  by (simp add: isShapeCall_def shapeRequest_def)

lemma generateAnalysis_result:
  assumes "generateAnalysis b env data q calls = (res, calls')"
  shows "(\<forall>r. res = Inr r \<longrightarrow> structurallyValid r \<and> isAnalysisResult r)
     \<and> (\<exists>new. calls' = calls @ new \<and> length (filter isShapeCall new) \<le> 3)"
proof (cases "data = []")
  case True
  with assms show ?thesis
    by (auto simp: generateAnalysis_def canned_responses_valid)
next
  case False
  let ?req = "classifyRequest q data"
  show ?thesis
  proof (cases "responses_create env calls ?req")
    case (Inl e)
    with False assms have "res = Inl e" "calls' = calls @ [ResponsesCreate ?req]"
      by (auto simp: generateAnalysis_def classifyRequest_def Let_def)
    then show ?thesis by (simp add: isShapeCall_def classifyRequest_def)
  next
    case (Inr output_text)
    let ?ct = "toLowerCase b (trim output_text)"
    let ?sch = "if ?ct = ''waterfall_chart'' then simpleWaterfallChartSchema else simplePieChartSchema"
    let ?calls1 = "calls @ [ResponsesCreate ?req]"
    obtain found cr calls2
      where loop: "retryLoop b env ?ct ?sch q data 0 ?calls1 = (found, cr, calls2)"
      by (cases "retryLoop b env ?ct ?sch q data 0 ?calls1") auto
    from retryLoop_calls [OF loop] obtain new
      where new: "calls2 = ?calls1 @ new" "length new \<le> max 1 (maxRetries - 0)"
        "\<forall>c\<in>set new. \<exists>n. c = ResponsesCreate (shapeRequest ?ct ?sch q data n)"
      by blast
    have gen: "res = (case found of None \<Rightarrow> Inr (fallbackResponse ?ct (length data))
                       | Some validResponse \<Rightarrow> Inr validResponse)" "calls' = calls2"
      using assms loop generateAnalysis_classified [OF False Inr, of b]
      by (auto split: option.splits)
    have valid: "\<forall>r. res = Inr r \<longrightarrow> structurallyValid r \<and> isAnalysisResult r"
    proof (cases found)
      case None
      with gen show ?thesis by (simp add: canned_responses_valid)
    next
      case (Some v)
      with loop obtain calls0 n
        where "checkOutput b (responses_create env calls0 (shapeRequest ?ct ?sch q data n)) = Some v"
        using retryLoop_valid by blast
      then have "structurallyValid v \<and> isAnalysisResult v" by (rule checkOutput_valid)
      with Some gen show ?thesis by simp
    qed
    have "length (filter isShapeCall ([ResponsesCreate ?req] @ new)) \<le> length new"
      by (simp add: isShapeCall_def classifyRequest_def)
    also have "\<dots> \<le> 3" using new(2) by (simp add: maxRetries_def)
    finally have "length (filter isShapeCall ([ResponsesCreate ?req] @ new)) \<le> 3" .
    moreover have "calls' = calls @ ([ResponsesCreate ?req] @ new)"
      using gen(2) new(1) by simp
    ultimately show ?thesis using valid by blast
  qed
qed

lemma generateSqlQuery_calls:
  "generateSqlQuery b env q calls = (res, calls') \<Longrightarrow>
   \<exists>new. calls' = calls @ new \<and> filter isShapeCall new = []"
  by (auto simp: generateSqlQuery_def Let_def isShapeCall_def split: if_splits)

lemma makeQuery_calls:
  "makeQuery env query ps calls = (res, calls') \<Longrightarrow>
   \<exists>new. calls' = calls @ new \<and> filter isShapeCall new = []"
  by (auto simp: makeQuery_def isShapeCall_def split: if_splits)

lemma analyzeStatisticalQuestion_result:
  "\<exists>r calls. analyzeStatisticalQuestion b env q = (Inr r, calls)
     \<and> structurallyValid r \<and> isAnalysisResult r
     \<and> length (filter isShapeCall calls) \<le> 3"
proof (cases "q = [] \<or> trim q = []")
  case True
  then show ?thesis
    by (auto simp: analyzeStatisticalQuestion_def error_responses_valid)
next
  case False
  obtain sql calls1 where sql: "generateSqlQuery b env q [] = (sql, calls1)"
    by (cases "generateSqlQuery b env q []") auto
  from generateSqlQuery_calls [OF sql] have c1: "filter isShapeCall calls1 = []" by auto
  show ?thesis
  proof (cases sql)
    case (Inl e)
    with False sql c1 show ?thesis
      by (simp add: analyzeStatisticalQuestion_def error_responses_valid)
  next
    case (Inr sqlQuery)
    obtain rows calls2 where db: "makeQuery env sqlQuery [] calls1 = (rows, calls2)"
      by (cases "makeQuery env sqlQuery [] calls1") auto
    from makeQuery_calls [OF db] c1 have c2: "filter isShapeCall calls2 = []" by auto
    show ?thesis
    proof (cases rows)
      case (Inl e)
      with False sql Inr db c2 show ?thesis
        by (simp add: analyzeStatisticalQuestion_def error_responses_valid)
    next
      case rows: (Inr queryResults)
      obtain res calls3 where gen: "generateAnalysis b env queryResults q calls2 = (res, calls3)"
        by (cases "generateAnalysis b env queryResults q calls2") auto
      from generateAnalysis_result [OF gen] obtain new
        where valid: "\<forall>r. res = Inr r \<longrightarrow> structurallyValid r \<and> isAnalysisResult r"
          and new: "calls3 = calls2 @ new" "length (filter isShapeCall new) \<le> 3"
        by blast
      from new c2 have c3: "length (filter isShapeCall calls3) \<le> 3" by simp
      show ?thesis
      proof (cases res)
        case (Inl e)
        with False sql Inr db rows gen c3 show ?thesis
          by (simp add: analyzeStatisticalQuestion_def error_responses_valid)
      next
        case (Inr r)
        with False sql \<open>sql = Inr sqlQuery\<close> db rows gen c3 valid show ?thesis
          by (simp add: analyzeStatisticalQuestion_def)
      qed
    qed
  qed
qed

lemma sameLength_arrays:
  "sameLength a c \<Longrightarrow> \<exists>xs ys. a = JArr xs \<and> c = JArr ys \<and> length xs = length ys"
  by (cases a; cases c) (simp_all add: sameLength_def)

lemma analyze_scripted:
  "analyzeStatisticalQuestion engine (scripted ''select 1'' r c t) ''How many invoices?'' =
     (case generateAnalysis engine (scripted ''select 1'' r c t) r ''How many invoices?''
             [ResponsesCreate \<lparr>prompt_of = SqlQueryPrompt ''How many invoices?'', schema_of = None\<rparr>,
              PoolQuery ''select 1'' []] of
        (Inl error, calls) \<Rightarrow>
          (Inr (createErrorResponse (''Analysis failed: '' @ err_message error)), calls)
      | (Inr result, calls) \<Rightarrow> (Inr result, calls))"
  by (simp add: analyzeStatisticalQuestion_def trim_question sql_generated rows_returned
        split: prod.splits sum.splits)

lemma payments_run:
  "analyzeStatisticalQuestion engine (scripted ''select 1'' twoRows ''pie_chart'' paymentsText)
     ''How many invoices?'' =
     (Inr paymentsValidated,
      [ResponsesCreate \<lparr>prompt_of = SqlQueryPrompt ''How many invoices?'', schema_of = None\<rparr>,
       PoolQuery ''select 1'' [],
       ResponsesCreate (classifyRequest ''How many invoices?'' twoRows),
       ResponsesCreate (shapeRequest ''pie_chart'' simplePieChartSchema ''How many invoices?'' twoRows 0)])"
proof -
  have rows: "twoRows \<noteq> []" by (simp add: twoRows_def)
  have ok: "checkOutput engine
      (responses_create (scripted ''select 1'' twoRows ''pie_chart'' paymentsText) calls
         (shapeRequest ''pie_chart'' simplePieChartSchema ''How many invoices?'' twoRows 0)) =
      Some paymentsValidated" for calls
    by (simp add: scripted_shape payments_accepted)
  show ?thesis
    by (simp add: analyze_scripted generateAnalysis_classified [OF rows scripted_classify]
          lower_pie retryLoop_first [OF ok])
qed

lemma balance_run:
  "analyzeStatisticalQuestion engine (scripted ''select 1'' twoRows ''waterfall_chart'' balanceText)
     ''How many invoices?'' =
     (Inr balanceValidated,
      [ResponsesCreate \<lparr>prompt_of = SqlQueryPrompt ''How many invoices?'', schema_of = None\<rparr>,
       PoolQuery ''select 1'' [],
       ResponsesCreate (classifyRequest ''How many invoices?'' twoRows),
       ResponsesCreate (shapeRequest ''waterfall_chart'' simpleWaterfallChartSchema
                          ''How many invoices?'' twoRows 0)])"
proof -
  have rows: "twoRows \<noteq> []" by (simp add: twoRows_def)
  have ok: "checkOutput engine
      (responses_create (scripted ''select 1'' twoRows ''waterfall_chart'' balanceText) calls
         (shapeRequest ''waterfall_chart'' simpleWaterfallChartSchema ''How many invoices?''
            twoRows 0)) =
      Some balanceValidated" for calls
    by (simp add: scripted_shape balance_accepted)
  show ?thesis
    by (simp add: analyze_scripted generateAnalysis_classified [OF rows scripted_classify]
          lower_waterfall retryLoop_first [OF ok])
qed

lemma malformed_run:
  "analyzeStatisticalQuestion engine (scripted ''select 1'' twoRows ''pie_chart'' ''not json'')
     ''How many invoices?'' =
     (Inr (pieFallback 2),
      [ResponsesCreate \<lparr>prompt_of = SqlQueryPrompt ''How many invoices?'', schema_of = None\<rparr>,
       PoolQuery ''select 1'' [],
       ResponsesCreate (classifyRequest ''How many invoices?'' twoRows),
       ResponsesCreate (shapeRequest ''pie_chart'' simplePieChartSchema ''How many invoices?'' twoRows 0),
       ResponsesCreate (shapeRequest ''pie_chart'' simplePieChartSchema ''How many invoices?'' twoRows 1),
       ResponsesCreate (shapeRequest ''pie_chart'' simplePieChartSchema ''How many invoices?'' twoRows 2)])"
proof -
  have rows: "twoRows \<noteq> []" and len: "length twoRows = 2" by (simp_all add: twoRows_def)
  have fails: "checkOutput engine
      (responses_create (scripted ''select 1'' twoRows ''pie_chart'' ''not json'') calls
         (shapeRequest ''pie_chart'' simplePieChartSchema ''How many invoices?'' twoRows n)) = None"
    for calls n
    by (simp add: scripted_shape not_json_fails)
  show ?thesis
    by (simp add: analyze_scripted fallbackResponse_cases len
          generateAnalysis_exhausted [OF rows scripted_classify lower_pie [symmetric] _ refl
            fails fails fails])
qed

lemma sibling_rejects_negative_pie:
  "validatePieChartData negativePie =
     createPieChartErrorResponse ''Invalid pie chart data: values must be non-negative numbers''"
  by (simp add: validatePieChartData_def negativePie_def lessThanZero_def Let_def)

lemma parse_years: "JSON_parse engine yearsText = Some yearsWaterfall"
  by (simp add: engine_def sampleTexts_def errorRatesText_def paymentsText_def balanceText_def
        yearsText_def)

lemma validate_not_json:
  "validateResponse engine (JStr ''not json'') = Inl (TypeError engine WriteOnPrimitive)"
  by (simp add: validateResponse_def assignInterpretation_def)

lemma validate_years:
  "validateResponse engine yearsWaterfall =
     Inr (createErrorResponse
            ''Validation error: data.categories[lastIdx].toLowerCase is not a function'')"
  by (simp add: validateResponse_def yearsWaterfall_def waterfall_branch_def Number_def
        index_def keepCategories_def ensureStartEnd_def lowerCased_def TypeError_def
        engine_def v8Message_def Let_def)

lemma years_accepted:
  "checkOutput engine (Inr yearsText) =
     Some (createErrorResponse
             ''Validation error: data.categories[lastIdx].toLowerCase is not a function'')"
  unfolding checkOutput_def
  by (simp add: parse_years validate_years)
     (simp add: noErrorMessage_def createErrorResponse_def)

lemma validate_yearTotal:
  "validateResponse b yearTotalWaterfall =
     Inr (JObj [(''interpretation'', JStr ''Revenue by year''),
           (''statistics'', JObj [(''type'', JStr ''waterfall_chart''),
              (''data'', JObj [(''categories'', JArr [JNum (Finite 2023), JStr ''2024 total'']),
                               (''values'', JArr [JNum (Finite 100), JNum (Finite 120)]),
                               (''increaseLabelText'', JStr ''Increase''),
                               (''decreaseLabelText'', JStr ''Decrease''),
                               (''totalLabelText'', JStr ''Total'')])])])"
  by (simp add: validateResponse_def yearTotalWaterfall_def
        waterfall_branch_def Number_def index_def keepCategories_def ensureStartEnd_def
        lowerCased_def toLowerCase_def isASCII_def lower_char_def defaultText_def Let_def)

lemma validate_capitals: "validateResponse b capitalsWaterfall = Inr capitalsValidated"
  by (simp add: validateResponse_def capitalsWaterfall_def capitalsValidated_def
        waterfall_branch_def Number_def index_def keepCategories_def ensureStartEnd_def
        lowerCased_def toLowerCase_def isASCII_def lower_char_def defaultText_def Let_def)

lemma sibling_accepts_years: "validateWaterfallChartData yearsWaterfall = yearsWaterfall"
  by (simp add: validateWaterfallChartData_def yearsWaterfall_def)

lemma scriptedAttempts_classify:
  "responses_create (scriptedAttempts s r c t0 t1 t2) calls (classifyRequest q d) = Inr c"
  by (simp add: scriptedAttempts_def classifyRequest_def)

lemma scriptedAttempts_shape:
  "responses_create (scriptedAttempts s r c t0 t1 t2) calls (shapeRequest ct sch q d 0) = Inr t0"
  "responses_create (scriptedAttempts s r c t0 t1 t2) calls (shapeRequest ct sch q d 1) = Inr t1"
  "responses_create (scriptedAttempts s r c t0 t1 t2) calls (shapeRequest ct sch q d 2) = Inr t2"
  by (simp_all add: scriptedAttempts_def shapeRequest_def shapePrompt_def Let_def)

lemma retryLoop_third:
  assumes "checkOutput b (responses_create env calls (shapeRequest ct sch q data 0)) = None"
    and "checkOutput b (responses_create env
           (calls @ [ResponsesCreate (shapeRequest ct sch q data 0)])
           (shapeRequest ct sch q data 1)) = None"
    and "checkOutput b (responses_create env
           (calls @ [ResponsesCreate (shapeRequest ct sch q data 0),
                     ResponsesCreate (shapeRequest ct sch q data 1)])
           (shapeRequest ct sch q data 2)) = Some v"
  shows "retryLoop b env ct sch q data 0 calls =
     (Some v, 2, calls @ [ResponsesCreate (shapeRequest ct sch q data 0),
                          ResponsesCreate (shapeRequest ct sch q data 1),
                          ResponsesCreate (shapeRequest ct sch q data 2)])"
proof -
  have third: "retryLoop b env ct sch q data 2
       (calls @ [ResponsesCreate (shapeRequest ct sch q data 0),
                 ResponsesCreate (shapeRequest ct sch q data 1)]) =
     (Some v, 2, calls @ [ResponsesCreate (shapeRequest ct sch q data 0),
                          ResponsesCreate (shapeRequest ct sch q data 1),
                          ResponsesCreate (shapeRequest ct sch q data 2)])"
    using assms(3) by (subst retryLoop.simps) (simp add: Let_def)
  have second: "retryLoop b env ct sch q data 1
       (calls @ [ResponsesCreate (shapeRequest ct sch q data 0)]) =
     (Some v, 2, calls @ [ResponsesCreate (shapeRequest ct sch q data 0),
                          ResponsesCreate (shapeRequest ct sch q data 1),
                          ResponsesCreate (shapeRequest ct sch q data 2)])"
    using assms(2) third
    by (subst retryLoop.simps) (simp add: maxRetries_def Let_def numeral_2_eq_2)
  show ?thesis
    using assms(1) second
    by (subst retryLoop.simps) (simp add: maxRetries_def Let_def)
qed

lemma third_answer_run:
  "generateAnalysis engine
     (scriptedAttempts ''select 1'' twoRows ''waterfall_chart'' ''not json'' ''not json'' yearsText)
     twoRows ''How many invoices?'' [] =
     (Inr (createErrorResponse
             ''Validation error: data.categories[lastIdx].toLowerCase is not a function''),
      [ResponsesCreate (classifyRequest ''How many invoices?'' twoRows),
       ResponsesCreate (shapeRequest ''waterfall_chart'' simpleWaterfallChartSchema
                          ''How many invoices?'' twoRows 0),
       ResponsesCreate (shapeRequest ''waterfall_chart'' simpleWaterfallChartSchema
                          ''How many invoices?'' twoRows 1),
       ResponsesCreate (shapeRequest ''waterfall_chart'' simpleWaterfallChartSchema
                          ''How many invoices?'' twoRows 2)])"
proof -
  let ?env = "scriptedAttempts ''select 1'' twoRows ''waterfall_chart'' ''not json'' ''not json''
                yearsText"
  have rows: "twoRows \<noteq> []" by (simp add: twoRows_def)
  have first: "checkOutput engine (responses_create ?env calls
      (shapeRequest ''waterfall_chart'' simpleWaterfallChartSchema ''How many invoices?''
         twoRows 0)) = None" for calls
    by (simp add: scriptedAttempts_shape not_json_fails)
  have second: "checkOutput engine (responses_create ?env calls
      (shapeRequest ''waterfall_chart'' simpleWaterfallChartSchema ''How many invoices?''
         twoRows 1)) = None" for calls
    using scriptedAttempts_shape(2)
            [of "''select 1''" twoRows "''waterfall_chart''" "''not json''" "''not json''"
                yearsText calls "''waterfall_chart''" simpleWaterfallChartSchema
                "''How many invoices?''" twoRows]
    by (simp add: not_json_fails)
  have third: "checkOutput engine (responses_create ?env calls
      (shapeRequest ''waterfall_chart'' simpleWaterfallChartSchema ''How many invoices?''
         twoRows 2)) =
      Some (createErrorResponse
              ''Validation error: data.categories[lastIdx].toLowerCase is not a function'')"
    for calls
    using scriptedAttempts_shape(3)
            [of "''select 1''" twoRows "''waterfall_chart''" "''not json''" "''not json''"
                yearsText calls "''waterfall_chart''" simpleWaterfallChartSchema
                "''How many invoices?''" twoRows]
    by (simp add: years_accepted)
  show ?thesis
    by (simp add: generateAnalysis_classified [OF rows scriptedAttempts_classify]
          lower_waterfall retryLoop_third [OF first second third])
qed

lemma first_answer_run:
  "generateAnalysis engine (scripted ''select 1'' twoRows ''waterfall_chart'' yearsText)
     twoRows ''How many invoices?'' [] =
     (Inr (createErrorResponse
             ''Validation error: data.categories[lastIdx].toLowerCase is not a function''),
      [ResponsesCreate (classifyRequest ''How many invoices?'' twoRows),
       ResponsesCreate (shapeRequest ''waterfall_chart'' simpleWaterfallChartSchema
                          ''How many invoices?'' twoRows 0)])"
proof -
  have rows: "twoRows \<noteq> []" by (simp add: twoRows_def)
  have ok: "checkOutput engine
      (responses_create (scripted ''select 1'' twoRows ''waterfall_chart'' yearsText) calls
         (shapeRequest ''waterfall_chart'' simpleWaterfallChartSchema ''How many invoices?''
            twoRows 0)) =
      Some (createErrorResponse
              ''Validation error: data.categories[lastIdx].toLowerCase is not a function'')"
    for calls
    by (simp add: scripted_shape years_accepted)
  show ?thesis
    by (simp add: generateAnalysis_classified [OF rows scripted_classify]
          lower_waterfall retryLoop_first [OF ok])
qed

lemma bar_run:
  "generateAnalysis engine (scripted ''select 1'' twoRows '' Bar_Chart'' ''not json'')
     twoRows ''How many invoices?'' [] =
     (Inr (pieFallback 2),
      [ResponsesCreate (classifyRequest ''How many invoices?'' twoRows),
       ResponsesCreate (shapeRequest ''bar_chart'' simplePieChartSchema
                          ''How many invoices?'' twoRows 0),
       ResponsesCreate (shapeRequest ''bar_chart'' simplePieChartSchema
                          ''How many invoices?'' twoRows 1),
       ResponsesCreate (shapeRequest ''bar_chart'' simplePieChartSchema
                          ''How many invoices?'' twoRows 2)])"
proof -
  let ?env = "scripted ''select 1'' twoRows '' Bar_Chart'' ''not json''"
  have rows: "twoRows \<noteq> []" and len: "length twoRows = 2" by (simp_all add: twoRows_def)
  have fails: "checkOutput engine (responses_create ?env calls
                 (shapeRequest ''bar_chart'' simplePieChartSchema
                    ''How many invoices?'' twoRows n)) = None" for calls n
    by (simp add: scripted_shape not_json_fails)
  have ne: "''bar_chart'' \<noteq> ''waterfall_chart''" by simp
  from generateAnalysis_exhausted
         [OF rows scripted_classify lower_bar [symmetric] _ refl fails fails fails]
  show ?thesis
    by (simp add: fallbackResponse_cases len)
qed

subsection \<open>The claims\<close>

text \<open>
  C1. Whatever the question, the model and the database do, the orchestrator returns a
  result, and that result has the structural invariant: if its chart type is
  \<^verbatim>\<open>pie_chart\<close>, its labels and its values are arrays of the same length; if its chart
  type is \<^verbatim>\<open>waterfall_chart\<close>, its categories and its values are arrays of the same
  length, which is at least 2. The statement covers every path at once: the validated
  response, the error responses of the \<^verbatim>\<open>catch\<close> handler and of the empty question,
  the canned response for no rows, and the fallback after three failed attempts.
\<close>

theorem returned_results_structurally_valid:
  "\<exists>r calls. analyzeStatisticalQuestion b env userQuestion = (Inr r, calls)
     \<and> (statisticsType r = JStr ''pie_chart'' \<longrightarrow>
          (\<exists>labels vals. get_prop (statisticsData r) ''labels'' = JArr labels
             \<and> get_prop (statisticsData r) ''values'' = JArr vals
             \<and> length labels = length vals))
     \<and> (statisticsType r = JStr ''waterfall_chart'' \<longrightarrow>
          (\<exists>categories vals. get_prop (statisticsData r) ''categories'' = JArr categories
             \<and> get_prop (statisticsData r) ''values'' = JArr vals
             \<and> length categories = length vals \<and> 2 \<le> length vals))"
proof -
  obtain r calls where run: "analyzeStatisticalQuestion b env userQuestion = (Inr r, calls)"
    and valid: "structurallyValid r"
    using analyzeStatisticalQuestion_result by blast
  have "statisticsType r = JStr ''pie_chart'' \<longrightarrow>
          (\<exists>labels vals. get_prop (statisticsData r) ''labels'' = JArr labels
             \<and> get_prop (statisticsData r) ''values'' = JArr vals
             \<and> length labels = length vals)"
    using valid by (auto simp: structurallyValid_def dest: sameLength_arrays)
  moreover have "statisticsType r = JStr ''waterfall_chart'' \<longrightarrow>
          (\<exists>categories vals. get_prop (statisticsData r) ''categories'' = JArr categories
             \<and> get_prop (statisticsData r) ''values'' = JArr vals
             \<and> length categories = length vals \<and> 2 \<le> length vals)"
    using valid by (auto simp: structurallyValid_def dest!: sameLength_arrays)
  ultimately show ?thesis using run by blast
qed

theorem returned_results_structurally_valid_witness:
  "fst (analyzeStatisticalQuestion engine
          (scripted ''select 1'' twoRows ''pie_chart'' paymentsText) ''How many invoices?'') =
     Inr paymentsValidated
   \<and> statisticsType paymentsValidated = JStr ''pie_chart''
   \<and> (\<exists>labels vals. get_prop (statisticsData paymentsValidated) ''labels'' = JArr labels
         \<and> get_prop (statisticsData paymentsValidated) ''values'' = JArr vals
         \<and> length labels = length vals)
   \<and> fst (analyzeStatisticalQuestion engine
          (scripted ''select 1'' twoRows ''waterfall_chart'' balanceText) ''How many invoices?'') =
     Inr balanceValidated
   \<and> statisticsType balanceValidated = JStr ''waterfall_chart''
   \<and> (\<exists>categories vals. get_prop (statisticsData balanceValidated) ''categories'' = JArr categories
         \<and> get_prop (statisticsData balanceValidated) ''values'' = JArr vals
         \<and> length categories = length vals \<and> 2 \<le> length vals)"
proof -
  have pie: "statisticsType paymentsValidated = JStr ''pie_chart''"
    by (simp add: statisticsType_def paymentsValidated_def)
  have waterfall: "statisticsType balanceValidated = JStr ''waterfall_chart''"
    by (simp add: statisticsType_def balanceValidated_def)
  from returned_results_structurally_valid
         [of engine "scripted ''select 1'' twoRows ''pie_chart'' paymentsText"
             "''How many invoices?''"]
  have "\<exists>labels vals. get_prop (statisticsData paymentsValidated) ''labels'' = JArr labels
         \<and> get_prop (statisticsData paymentsValidated) ''values'' = JArr vals
         \<and> length labels = length vals"
    using pie by (auto simp: payments_run)
  moreover from returned_results_structurally_valid
         [of engine "scripted ''select 1'' twoRows ''waterfall_chart'' balanceText"
             "''How many invoices?''"]
  have "\<exists>categories vals. get_prop (statisticsData balanceValidated) ''categories'' = JArr categories
         \<and> get_prop (statisticsData balanceValidated) ''values'' = JArr vals
         \<and> length categories = length vals \<and> 2 \<le> length vals"
    using waterfall by (auto simp: balance_run)
  ultimately show ?thesis
    using pie waterfall by (simp add: payments_run balance_run)
qed

text \<open>
  C2. For every question and every behaviour of the model and of the database, the
  orchestrator returns an analysis result (an interpretation string and a chart of one
  of the two types) and not a rejected promise, and the calls it made include at most
  three shape-generation requests. That the retry loop ends is the termination proof of
  \<open>retryLoop\<close>: the measure \<open>maxRetries - currentRetry\<close> decreases with each failed
  attempt.
\<close>

theorem orchestrator_total_within_three_attempts:
  "\<exists>r calls. analyzeStatisticalQuestion b env userQuestion = (Inr r, calls)
     \<and> isAnalysisResult r
     \<and> length (filter isShapeCall calls) \<le> 3"
  using analyzeStatisticalQuestion_result [of b env userQuestion] by blast

theorem orchestrator_total_within_three_attempts_witness:
  "fst (analyzeStatisticalQuestion engine
          (scripted ''select 1'' twoRows ''pie_chart'' ''not json'') ''How many invoices?'') =
     Inr (pieFallback 2)
   \<and> isAnalysisResult (pieFallback 2)
   \<and> length (filter isShapeCall
        (snd (analyzeStatisticalQuestion engine
                (scripted ''select 1'' twoRows ''pie_chart'' ''not json'')
                ''How many invoices?''))) \<le> 3"
  using orchestrator_total_within_three_attempts
          [of engine "scripted ''select 1'' twoRows ''pie_chart'' ''not json''"
              "''How many invoices?''"]
  by (auto simp: malformed_run)

text \<open>
  C3 (the code departs from the claim). The claim holds that an accepted pie chart has
  only non-negative values, so that a response with a negative pie value does not pass
  validation unchanged. \<^verbatim>\<open>validateResponse\<close> has no such test: on the response
  \<open>negativePie\<close>, whose values are -5 and 10, it returns the response with both values
  as they were and the default colours added. The validator of the sibling module
  (\<^verbatim>\<open>validatePieChartData\<close> in \<^verbatim>\<open>systemPrompt.ts\<close>) rejects the same response
  (lemma \<open>sibling_rejects_negative_pie\<close>).
\<close>

theorem negative_pie_value_accepted:
  "validateResponse b negativePie =
     Inr (JObj [(''interpretation'', JStr ''Net position by account''),
           (''statistics'', JObj [(''type'', JStr ''pie_chart''),
              (''data'', JObj [(''labels'', JArr [JStr ''Refunds'', JStr ''Sales'']),
                               (''values'', JArr [JNum (Finite (- 5)), JNum (Finite 10)]),
                               (''colors'', JArr [JStr ''#4299E1'', JStr ''#48BB78''])])])])"
  by (simp add: validateResponse_def negativePie_def pie_branch_def Number_def index_def
        addDefaultColors_def defaultColors_def Let_def)

theorem negative_pie_value_accepted_witness:
  "validateResponse engine negativePie =
     Inr (JObj [(''interpretation'', JStr ''Net position by account''),
           (''statistics'', JObj [(''type'', JStr ''pie_chart''),
              (''data'', JObj [(''labels'', JArr [JStr ''Refunds'', JStr ''Sales'']),
                               (''values'', JArr [JNum (Finite (- 5)), JNum (Finite 10)]),
                               (''colors'', JArr [JStr ''#4299E1'', JStr ''#48BB78''])])])])"
  by (rule negative_pie_value_accepted)

text \<open>
  C4 (the code departs from the claim). The claim holds that, when all three
  shape-generation attempts fail validation, \<^verbatim>\<open>generateAnalysis\<close> returns the
  fallback. The loop does not ask whether validation failed: it rejects a validated
  response when its interpretation contains "Invalid" or "Error" (lines 582 to 585). The
  response that the validator's own \<^verbatim>\<open>catch\<close> block builds (lines 177 to 181) has the
  interpretation "Validation error: ..." followed by the message of the error, which
  contains neither word unless the message does, so the loop takes that error response for
  a valid one and returns it.

  Here the classifier answers \<^verbatim>\<open>waterfall_chart\<close> and there are two rows. The first two
  answers are not JSON, and the validator throws on them; the third is the response
  \<open>yearsWaterfall\<close>, on which the validator fails with "Validation error:
  data.categories[lastIdx].toLowerCase is not a function". All three attempts have failed
  validation, three requests have been made, and the result is that error response, a pie
  chart with the label Error, and not the fallback with the categories Start, Change, End
  and the values 0, 2, 2. With a model that gives the third answer to every request, the
  first attempt already ends the loop with the same error response.
\<close>

theorem failed_validation_returned:
  "validateResponse engine (JStr ''not json'') = Inl (TypeError engine WriteOnPrimitive)
   \<and> validateResponse engine yearsWaterfall =
       Inr (JObj [(''interpretation'',
                   JStr ''Validation error: data.categories[lastIdx].toLowerCase is not a function''),
                  (''statistics'', JObj [(''type'', JStr ''pie_chart''),
                     (''data'', JObj [(''labels'', JArr [JStr ''Error'']),
                                      (''values'', JArr [JNum (Finite 100)])])])])
   \<and> generateAnalysis engine
         (scriptedAttempts ''select 1'' twoRows ''waterfall_chart'' ''not json'' ''not json''
            yearsText)
         twoRows ''How many invoices?'' [] =
       (Inr (JObj [(''interpretation'',
                    JStr ''Validation error: data.categories[lastIdx].toLowerCase is not a function''),
                   (''statistics'', JObj [(''type'', JStr ''pie_chart''),
                      (''data'', JObj [(''labels'', JArr [JStr ''Error'']),
                                       (''values'', JArr [JNum (Finite 100)])])])]),
        [ResponsesCreate (classifyRequest ''How many invoices?'' twoRows),
         ResponsesCreate (shapeRequest ''waterfall_chart'' simpleWaterfallChartSchema
                            ''How many invoices?'' twoRows 0),
         ResponsesCreate (shapeRequest ''waterfall_chart'' simpleWaterfallChartSchema
                            ''How many invoices?'' twoRows 1),
         ResponsesCreate (shapeRequest ''waterfall_chart'' simpleWaterfallChartSchema
                            ''How many invoices?'' twoRows 2)])
   \<and> generateAnalysis engine (scripted ''select 1'' twoRows ''waterfall_chart'' yearsText)
         twoRows ''How many invoices?'' [] =
       (Inr (JObj [(''interpretation'',
                    JStr ''Validation error: data.categories[lastIdx].toLowerCase is not a function''),
                   (''statistics'', JObj [(''type'', JStr ''pie_chart''),
                      (''data'', JObj [(''labels'', JArr [JStr ''Error'']),
                                       (''values'', JArr [JNum (Finite 100)])])])]),
        [ResponsesCreate (classifyRequest ''How many invoices?'' twoRows),
         ResponsesCreate (shapeRequest ''waterfall_chart'' simpleWaterfallChartSchema
                            ''How many invoices?'' twoRows 0)])"
  by (simp add: validate_not_json validate_years third_answer_run first_answer_run
        createErrorResponse_def)

theorem failed_validation_returned_witness:
  "fst (generateAnalysis engine
          (scriptedAttempts ''select 1'' twoRows ''waterfall_chart'' ''not json'' ''not json''
             yearsText)
          twoRows ''How many invoices?'' []) \<noteq>
     Inr (JObj [(''interpretation'',
                 JStr ''Unable to generate a detailed analysis, but here's a simple overview of the data.''),
                (''statistics'', JObj [(''type'', JStr ''waterfall_chart''),
                   (''data'', JObj [(''categories'',
                                     JArr [JStr ''Start'', JStr ''Change'', JStr ''End'']),
                                    (''values'',
                                     JArr [JNum (Finite 0), JNum (Finite 2), JNum (Finite 2)])])])])
   \<and> length (filter isShapeCall
        (snd (generateAnalysis engine
                (scriptedAttempts ''select 1'' twoRows ''waterfall_chart'' ''not json''
                   ''not json'' yearsText)
                twoRows ''How many invoices?'' []))) = 3"
  using failed_validation_returned
  by (simp add: isShapeCall_def classifyRequest_def shapeRequest_def)

text \<open>
  C5 (the code departs from the claim). The claim holds that a waterfall response with
  both arrays present is marked failed exactly when fewer than two index pairs have a
  value that coerces to a number. In the response \<open>yearsWaterfall\<close> both values are
  numbers, so both pairs remain, and yet the validator returns the generic error
  response: the categories are the numbers 2023 and 2024, line 165 calls
  \<^verbatim>\<open>toLowerCase\<close> on the last kept category, and the \<^verbatim>\<open>TypeError\<close> is caught by
  the validator's own \<^verbatim>\<open>try\<close> block. The rejection is not a rule about categories:
  the response \<open>yearTotalWaterfall\<close>, whose first category is the number 2023, is
  accepted with that category kept, because only the last category, and the first one
  when the first value is 0, are lower-cased. The waterfall validator of the sibling
  module (\<^verbatim>\<open>validateWaterfallChartData\<close> in \<^verbatim>\<open>systemPrompt.ts\<close>) accepts
  \<open>yearsWaterfall\<close> as it is.
\<close>

theorem numeric_categories_rejected:
  "numericIndices b [JNum (Finite 100), JNum (Finite 120)] = [0, 1]
   \<and> validateResponse b yearsWaterfall =
       Inr (JObj [(''interpretation'',
                   JStr (''Validation error: '' @ typeErrorMessage b NotAFunction)),
                  (''statistics'', JObj [(''type'', JStr ''pie_chart''),
                     (''data'', JObj [(''labels'', JArr [JStr ''Error'']),
                                      (''values'', JArr [JNum (Finite 100)])])])])
   \<and> validateResponse b yearTotalWaterfall =
       Inr (JObj [(''interpretation'', JStr ''Revenue by year''),
                  (''statistics'', JObj [(''type'', JStr ''waterfall_chart''),
                     (''data'', JObj [(''categories'', JArr [JNum (Finite 2023), JStr ''2024 total'']),
                                      (''values'', JArr [JNum (Finite 100), JNum (Finite 120)]),
                                      (''increaseLabelText'', JStr ''Increase''),
                                      (''decreaseLabelText'', JStr ''Decrease''),
                                      (''totalLabelText'', JStr ''Total'')])])])
   \<and> validateWaterfallChartData yearsWaterfall = yearsWaterfall"
proof -
  have "numericIndices b [JNum (Finite 100), JNum (Finite 120)] = [0, 1]"
    by (simp add: numericIndices_Cons numericIndices_Nil coerces_def Number_def)
  moreover have "validateResponse b yearsWaterfall =
       Inr (JObj [(''interpretation'',
                   JStr (''Validation error: '' @ typeErrorMessage b NotAFunction)),
                  (''statistics'', JObj [(''type'', JStr ''pie_chart''),
                     (''data'', JObj [(''labels'', JArr [JStr ''Error'']),
                                      (''values'', JArr [JNum (Finite 100)])])])])"
    by (simp add: validateResponse_def yearsWaterfall_def waterfall_branch_def Number_def
          index_def keepCategories_def ensureStartEnd_def lowerCased_def TypeError_def
          createErrorResponse_def Let_def)
  ultimately show ?thesis
    by (simp add: validate_yearTotal sibling_accepts_years)
qed

theorem numeric_categories_rejected_witness:
  "length (numericIndices engine [JNum (Finite 100), JNum (Finite 120)]) = 2
   \<and> validateResponse engine yearsWaterfall =
       Inr (createErrorResponse
              ''Validation error: data.categories[lastIdx].toLowerCase is not a function'')
   \<and> statisticsType (createErrorResponse
        ''Validation error: data.categories[lastIdx].toLowerCase is not a function'') =
       JStr ''pie_chart''"
  using numeric_categories_rejected [of engine]
  by (simp add: createErrorResponse_def statisticsType_def engine_def v8Message_def)

text \<open>
  C6. On an empty result set \<^verbatim>\<open>generateAnalysis\<close> returns the canned "No data
  available" pie chart and makes no call: the log of calls is returned as it was, so
  neither the classifier nor the shape generator is invoked. In the orchestrator, when
  the synthesizer has produced a query and the executor has returned zero rows, the
  result is that response and the calls made are the synthesizer's and the executor's
  only.
\<close>

theorem no_rows_short_circuit:
  "generateAnalysis b env [] originalQuestion calls =
     (Inr (JObj [(''interpretation'', JStr ''No data available for analysis.''),
                 (''statistics'', JObj [(''type'', JStr ''pie_chart''),
                    (''data'', JObj [(''labels'', JArr [JStr ''No Data'']),
                                     (''values'', JArr [JNum (Finite 100)])])])]),
      calls)
   \<and> (userQuestion \<noteq> [] \<and> trim userQuestion \<noteq> []
        \<and> generateSqlQuery b env userQuestion [] = (Inr sqlQuery, sqlCalls)
        \<and> makeQuery env sqlQuery [] sqlCalls = (Inr [], allCalls) \<longrightarrow>
        analyzeStatisticalQuestion b env userQuestion =
          (Inr (JObj [(''interpretation'', JStr ''No data available for analysis.''),
                      (''statistics'', JObj [(''type'', JStr ''pie_chart''),
                         (''data'', JObj [(''labels'', JArr [JStr ''No Data'']),
                                          (''values'', JArr [JNum (Finite 100)])])])]),
           allCalls)
        \<and> allCalls =
            [ResponsesCreate \<lparr>prompt_of = SqlQueryPrompt userQuestion, schema_of = None\<rparr>,
             PoolQuery sqlQuery []])"
proof (intro conjI impI)
  show "generateAnalysis b env [] originalQuestion calls =
     (Inr (JObj [(''interpretation'', JStr ''No data available for analysis.''),
                 (''statistics'', JObj [(''type'', JStr ''pie_chart''),
                    (''data'', JObj [(''labels'', JArr [JStr ''No Data'']),
                                     (''values'', JArr [JNum (Finite 100)])])])]),
      calls)"
    by (simp add: generateAnalysis_def noDataResponse_def)
next
  assume h: "userQuestion \<noteq> [] \<and> trim userQuestion \<noteq> []
        \<and> generateSqlQuery b env userQuestion [] = (Inr sqlQuery, sqlCalls)
        \<and> makeQuery env sqlQuery [] sqlCalls = (Inr [], allCalls)"
  then show "analyzeStatisticalQuestion b env userQuestion =
          (Inr (JObj [(''interpretation'', JStr ''No data available for analysis.''),
                      (''statistics'', JObj [(''type'', JStr ''pie_chart''),
                         (''data'', JObj [(''labels'', JArr [JStr ''No Data'']),
                                          (''values'', JArr [JNum (Finite 100)])])])]),
           allCalls)"
    by (simp add: analyzeStatisticalQuestion_def generateAnalysis_def noDataResponse_def)
  from h have "sqlCalls = [ResponsesCreate \<lparr>prompt_of = SqlQueryPrompt userQuestion, schema_of = None\<rparr>]"
    by (auto simp: generateSqlQuery_def Let_def)
  moreover from h have "allCalls = sqlCalls @ [PoolQuery sqlQuery []]"
    by (auto simp: makeQuery_def split: if_splits)
  ultimately show "allCalls =
            [ResponsesCreate \<lparr>prompt_of = SqlQueryPrompt userQuestion, schema_of = None\<rparr>,
             PoolQuery sqlQuery []]"
    by simp
qed

theorem no_rows_short_circuit_witness:
  "generateAnalysis engine (scripted ''select 1'' [] ''pie_chart'' ''not json'') []
     ''How many invoices?'' [] = (Inr noDataResponse, [])
   \<and> analyzeStatisticalQuestion engine (scripted ''select 1'' [] ''pie_chart'' ''not json'')
       ''How many invoices?'' =
       (Inr noDataResponse,
        [ResponsesCreate \<lparr>prompt_of = SqlQueryPrompt ''How many invoices?'', schema_of = None\<rparr>,
         PoolQuery ''select 1'' []])"
  using no_rows_short_circuit
          [where b = engine and env = "scripted ''select 1'' [] ''pie_chart'' ''not json''"
             and originalQuestion = "''How many invoices?''" and calls = "[]"
             and userQuestion = "''How many invoices?''" and sqlQuery = "''select 1''"
             and sqlCalls = "[ResponsesCreate \<lparr>prompt_of = SqlQueryPrompt ''How many invoices?'',
                                            schema_of = None\<rparr>]"
             and allCalls = "[ResponsesCreate \<lparr>prompt_of = SqlQueryPrompt ''How many invoices?'',
                                            schema_of = None\<rparr>,
                            PoolQuery ''select 1'' []]"]
  by (simp add: sql_generated rows_returned trim_question noDataResponse_def)

text \<open>
  C7. A question that consists of white space only (any sequence of the characters that
  \<^verbatim>\<open>trim\<close> removes, the empty sequence included) is answered with the error response
  for an empty question, whose interpretation is the message and whose chart is the
  minimal "Error" pie chart; no collaborator is called (the list of calls is empty), so
  the query synthesizer is not invoked.
\<close>

theorem blank_question_rejected:
  assumes "set ws \<subseteq> set white_space"
  shows "analyzeStatisticalQuestion b env (concat ws) =
     (Inr (JObj [(''interpretation'',
                  JStr ''Invalid question: Question must be a non-empty string''),
                 (''statistics'', JObj [(''type'', JStr ''pie_chart''),
                    (''data'', JObj [(''labels'', JArr [JStr ''Error'']),
                                     (''values'', JArr [JNum (Finite 100)])])])]),
      [])"
  using trim_white_space [OF assms]
  by (simp add: analyzeStatisticalQuestion_def createErrorResponse_def)

theorem blank_question_rejected_witness:
  "analyzeStatisticalQuestion engine (scripted ''select 1'' twoRows ''pie_chart'' paymentsText) '''' =
     (Inr (createErrorResponse ''Invalid question: Question must be a non-empty string''), [])
   \<and> analyzeStatisticalQuestion engine (scripted ''select 1'' twoRows ''pie_chart'' paymentsText)
       ''   '' =
     (Inr (createErrorResponse ''Invalid question: Question must be a non-empty string''), [])"
  using blank_question_rejected
          [of "[]" engine "scripted ''select 1'' twoRows ''pie_chart'' paymentsText"]
        blank_question_rejected
          [of "[[CHR 0x20], [CHR 0x20], [CHR 0x20]]" engine
              "scripted ''select 1'' twoRows ''pie_chart'' paymentsText"]
  by (simp add: white_space_def createErrorResponse_def)

text \<open>
  C8. Let the classifier's answer, trimmed and lower-cased, be neither \<^verbatim>\<open>pie_chart\<close>
  nor \<^verbatim>\<open>waterfall_chart\<close>. Then the calls of \<^verbatim>\<open>generateAnalysis\<close> after the
  classification are exactly the shape requests of the attempts 0 to n - 1, for some n
  from 1 to 3, and each of them carries the pie schema; the prompts of the first two
  attempts carry the pie example and the prompt of the third is the three-point pie
  prompt; and if the retry loop ends without a valid response, all three requests have
  been made and the result is the pie fallback.
\<close>

theorem unknown_chart_type_defaults_to_pie:
  assumes "data \<noteq> []"
    and "responses_create env calls (classifyRequest q data) = Inr output_text"
    and "chartType = toLowerCase b (trim output_text)"
    and "chartType \<noteq> ''pie_chart''"
    and "chartType \<noteq> ''waterfall_chart''"
  shows "\<exists>n. 1 \<le> n \<and> n \<le> 3
    \<and> snd (generateAnalysis b env data q calls) =
        calls @ [ResponsesCreate (classifyRequest q data)]
          @ map (\<lambda>attempt. ResponsesCreate
                   \<lparr>prompt_of = shapePrompt chartType q data attempt,
                    schema_of = Some simplePieChartSchema\<rparr>) [0..<n]
    \<and> shapePrompt chartType q data 0 = StandardPrompt chartType q data PieExample
    \<and> shapePrompt chartType q data 1 = StructuredPrompt chartType q data PieExample
    \<and> shapePrompt chartType q data 2 = ThreePointPiePrompt q data
    \<and> (fst (retryLoop b env chartType simplePieChartSchema q data 0
               (calls @ [ResponsesCreate (classifyRequest q data)])) = None
        \<longrightarrow> n = 3
          \<and> fst (generateAnalysis b env data q calls) = Inr (pieFallback (length data)))"
proof -
  let ?classified = "calls @ [ResponsesCreate (classifyRequest q data)]"
  obtain res cr calls2
    where loop: "retryLoop b env chartType simplePieChartSchema q data 0 ?classified = (res, cr, calls2)"
    by (cases "retryLoop b env chartType simplePieChartSchema q data 0 ?classified") auto
  from retryLoop_requests [OF loop] obtain n
    where n: "1 \<le> n" "0 + n \<le> max (Suc 0) maxRetries"
      "calls2 = ?classified @ map (\<lambda>attempt. ResponsesCreate
                   (shapeRequest chartType simplePieChartSchema q data attempt)) [0..<0 + n]"
      "res = None \<longrightarrow> cr = 0 + n \<and> \<not> cr < maxRetries"
    by blast
  have gen: "generateAnalysis b env data q calls =
     (case res of None \<Rightarrow> Inr (fallbackResponse chartType (length data))
                | Some validResponse \<Rightarrow> Inr validResponse, calls2)"
    using loop assms(3,5)
    by (simp add: generateAnalysis_classified [OF assms(1,2)] split: option.splits)
  have l: "n \<le> 3" using n(2) by (simp add: maxRetries_def)
  have a: "snd (generateAnalysis b env data q calls) =
      calls @ [ResponsesCreate (classifyRequest q data)]
        @ map (\<lambda>attempt. ResponsesCreate
                 \<lparr>prompt_of = shapePrompt chartType q data attempt,
                  schema_of = Some simplePieChartSchema\<rparr>) [0..<n]"
    using gen n(3) by (simp add: shapeRequest_def)
  have p0: "shapePrompt chartType q data 0 = StandardPrompt chartType q data PieExample"
    and p1: "shapePrompt chartType q data 1 = StructuredPrompt chartType q data PieExample"
    and p2: "shapePrompt chartType q data 2 = ThreePointPiePrompt q data"
    using assms(5) by (simp_all add: shapePrompt_def)
  have f: "fst (retryLoop b env chartType simplePieChartSchema q data 0
               (calls @ [ResponsesCreate (classifyRequest q data)])) = None
        \<longrightarrow> n = 3
          \<and> fst (generateAnalysis b env data q calls) = Inr (pieFallback (length data))"
  proof
    assume "fst (retryLoop b env chartType simplePieChartSchema q data 0
               (calls @ [ResponsesCreate (classifyRequest q data)])) = None"
    with loop have none: "res = None" by simp
    with n(4) l have "n = 3" by (simp add: maxRetries_def)
    moreover have "fst (generateAnalysis b env data q calls) = Inr (pieFallback (length data))"
      using gen none assms(5) by (simp add: fallbackResponse_cases)
    ultimately show "n = 3
          \<and> fst (generateAnalysis b env data q calls) = Inr (pieFallback (length data))"
      by simp
  qed
  show ?thesis
    by (intro exI [of _ n] conjI) (fact n(1), fact l, fact a, fact p0, fact p1, fact p2, fact f)
qed

theorem unknown_chart_type_defaults_to_pie_witness:
  "generateAnalysis engine (scripted ''select 1'' twoRows '' Bar_Chart'' ''not json'')
     twoRows ''How many invoices?'' [] =
     (Inr (pieFallback 2),
      [ResponsesCreate (classifyRequest ''How many invoices?'' twoRows),
       ResponsesCreate \<lparr>prompt_of = StandardPrompt ''bar_chart'' ''How many invoices?'' twoRows
                                      PieExample,
                        schema_of = Some simplePieChartSchema\<rparr>,
       ResponsesCreate \<lparr>prompt_of = StructuredPrompt ''bar_chart'' ''How many invoices?'' twoRows
                                      PieExample,
                        schema_of = Some simplePieChartSchema\<rparr>,
       ResponsesCreate \<lparr>prompt_of = ThreePointPiePrompt ''How many invoices?'' twoRows,
                        schema_of = Some simplePieChartSchema\<rparr>])"
proof -
  let ?env = "scripted ''select 1'' twoRows '' Bar_Chart'' ''not json''"
  have rows: "twoRows \<noteq> []" by (simp add: twoRows_def)
  have fails: "checkOutput engine (responses_create ?env calls
                 (shapeRequest ''bar_chart'' simplePieChartSchema
                    ''How many invoices?'' twoRows n)) = None" for calls n
    by (simp add: scripted_shape not_json_fails)
  have loop: "fst (retryLoop engine ?env ''bar_chart'' simplePieChartSchema ''How many invoices?''
                twoRows 0 ([] @ [ResponsesCreate (classifyRequest ''How many invoices?'' twoRows)])) = None"
    by (simp add: retryLoop_exhausted [OF fails fails fails])
  have ne: "''bar_chart'' \<noteq> ''pie_chart''" "''bar_chart'' \<noteq> ''waterfall_chart''" by simp_all
  from unknown_chart_type_defaults_to_pie
         [OF rows
             scripted_classify [of "''select 1''" twoRows "'' Bar_Chart''" "''not json''" "[]"
                                   "''How many invoices?''" twoRows]
             lower_bar [of engine, symmetric] ne] loop
  obtain n where "n = 3"
    and "snd (generateAnalysis engine ?env twoRows ''How many invoices?'' []) =
        [] @ [ResponsesCreate (classifyRequest ''How many invoices?'' twoRows)]
          @ map (\<lambda>attempt. ResponsesCreate
                   \<lparr>prompt_of = shapePrompt ''bar_chart'' ''How many invoices?'' twoRows attempt,
                    schema_of = Some simplePieChartSchema\<rparr>) [0..<n]"
    and "shapePrompt ''bar_chart'' ''How many invoices?'' twoRows 0 =
           StandardPrompt ''bar_chart'' ''How many invoices?'' twoRows PieExample"
    and "shapePrompt ''bar_chart'' ''How many invoices?'' twoRows 1 =
           StructuredPrompt ''bar_chart'' ''How many invoices?'' twoRows PieExample"
    and "shapePrompt ''bar_chart'' ''How many invoices?'' twoRows 2 =
           ThreePointPiePrompt ''How many invoices?'' twoRows"
    and "fst (generateAnalysis engine ?env twoRows ''How many invoices?'' []) =
           Inr (pieFallback (length twoRows))"
    by blast
  moreover have "[0..<3] = [0, 1, 2]" by (simp add: upt_rec)
  moreover have "length twoRows = 2" by (simp add: twoRows_def)
  ultimately have "fst (generateAnalysis engine ?env twoRows ''How many invoices?'' []) =
           Inr (pieFallback 2)"
    and "snd (generateAnalysis engine ?env twoRows ''How many invoices?'' []) =
      [ResponsesCreate (classifyRequest ''How many invoices?'' twoRows),
       ResponsesCreate \<lparr>prompt_of = StandardPrompt ''bar_chart'' ''How many invoices?'' twoRows
                                      PieExample,
                        schema_of = Some simplePieChartSchema\<rparr>,
       ResponsesCreate \<lparr>prompt_of = StructuredPrompt ''bar_chart'' ''How many invoices?'' twoRows
                                      PieExample,
                        schema_of = Some simplePieChartSchema\<rparr>,
       ResponsesCreate \<lparr>prompt_of = ThreePointPiePrompt ''How many invoices?'' twoRows,
                        schema_of = Some simplePieChartSchema\<rparr>]"
    by simp_all
  then show ?thesis by (simp add: prod_eq_iff)
qed

text \<open>
  C9. An answer is flagged when it validates (the validator returns a response) and the
  interpretation of the validated response contains "Invalid" or "Error". A flagged
  answer is worth nothing: the attempt yields no valid response, and the loop goes on to
  the next attempt with the counter incremented, or ends without a response after the
  third. If the classifier has answered and all three attempts are flagged, the loop ends
  with the counter at 3 and \<^verbatim>\<open>generateAnalysis\<close> returns the fallback, not any of the
  validated shapes.
\<close>

theorem flagged_interpretation_discarded:
  "(flagged b (responses_create env earlier (shapeRequest chartType schema q data currentRetry))
      \<longrightarrow> checkOutput b (responses_create env earlier
              (shapeRequest chartType schema q data currentRetry)) = None
        \<and> retryLoop b env chartType schema q data currentRetry earlier =
            (if Suc currentRetry < maxRetries
             then retryLoop b env chartType schema q data (Suc currentRetry)
                    (earlier @ [ResponsesCreate (shapeRequest chartType schema q data currentRetry)])
             else (None, Suc currentRetry,
                   earlier @ [ResponsesCreate (shapeRequest chartType schema q data currentRetry)])))
   \<and> (data \<noteq> []
        \<and> responses_create env calls (classifyRequest q data) = Inr output_text
        \<and> chartType = toLowerCase b (trim output_text)
        \<and> schema = (if chartType = ''waterfall_chart'' then simpleWaterfallChartSchema
                     else simplePieChartSchema)
        \<and> classified = calls @ [ResponsesCreate (classifyRequest q data)]
        \<and> flagged b (responses_create env classified (shapeRequest chartType schema q data 0))
        \<and> flagged b (responses_create env
             (classified @ [ResponsesCreate (shapeRequest chartType schema q data 0)])
             (shapeRequest chartType schema q data 1))
        \<and> flagged b (responses_create env
             (classified @ [ResponsesCreate (shapeRequest chartType schema q data 0),
                        ResponsesCreate (shapeRequest chartType schema q data 1)])
             (shapeRequest chartType schema q data 2))
      \<longrightarrow> retryLoop b env chartType schema q data 0 classified =
            (None, 3, classified @ [ResponsesCreate (shapeRequest chartType schema q data 0),
                                ResponsesCreate (shapeRequest chartType schema q data 1),
                                ResponsesCreate (shapeRequest chartType schema q data 2)])
        \<and> fst (generateAnalysis b env data q calls) =
            Inr (if chartType = ''waterfall_chart'' then waterfallFallback (length data)
                 else pieFallback (length data)))"
proof (intro conjI impI)
  assume "flagged b (responses_create env earlier (shapeRequest chartType schema q data currentRetry))"
  then show none: "checkOutput b (responses_create env earlier
              (shapeRequest chartType schema q data currentRetry)) = None"
    by (rule flagged_fails)
  then show "retryLoop b env chartType schema q data currentRetry earlier =
            (if Suc currentRetry < maxRetries
             then retryLoop b env chartType schema q data (Suc currentRetry)
                    (earlier @ [ResponsesCreate (shapeRequest chartType schema q data currentRetry)])
             else (None, Suc currentRetry,
                   earlier @ [ResponsesCreate (shapeRequest chartType schema q data currentRetry)]))"
    by (rule retryLoop_failed)
next
  assume h: "data \<noteq> []
        \<and> responses_create env calls (classifyRequest q data) = Inr output_text
        \<and> chartType = toLowerCase b (trim output_text)
        \<and> schema = (if chartType = ''waterfall_chart'' then simpleWaterfallChartSchema
                     else simplePieChartSchema)
        \<and> classified = calls @ [ResponsesCreate (classifyRequest q data)]
        \<and> flagged b (responses_create env classified (shapeRequest chartType schema q data 0))
        \<and> flagged b (responses_create env
             (classified @ [ResponsesCreate (shapeRequest chartType schema q data 0)])
             (shapeRequest chartType schema q data 1))
        \<and> flagged b (responses_create env
             (classified @ [ResponsesCreate (shapeRequest chartType schema q data 0),
                        ResponsesCreate (shapeRequest chartType schema q data 1)])
             (shapeRequest chartType schema q data 2))"
  then have f0: "flagged b (responses_create env classified (shapeRequest chartType schema q data 0))"
    and f1: "flagged b (responses_create env
             (classified @ [ResponsesCreate (shapeRequest chartType schema q data 0)])
             (shapeRequest chartType schema q data 1))"
    and f2: "flagged b (responses_create env
             (classified @ [ResponsesCreate (shapeRequest chartType schema q data 0),
                        ResponsesCreate (shapeRequest chartType schema q data 1)])
             (shapeRequest chartType schema q data 2))"
    by blast+
  note fails = flagged_fails [OF f0] flagged_fails [OF f1] flagged_fails [OF f2]
  show "retryLoop b env chartType schema q data 0 classified =
            (None, 3, classified @ [ResponsesCreate (shapeRequest chartType schema q data 0),
                                ResponsesCreate (shapeRequest chartType schema q data 1),
                                ResponsesCreate (shapeRequest chartType schema q data 2)])"
    by (rule retryLoop_exhausted [OF fails])
  from h have pre: "data \<noteq> []"
    "responses_create env calls (classifyRequest q data) = Inr output_text"
    "chartType = toLowerCase b (trim output_text)"
    "schema = (if chartType = ''waterfall_chart'' then simpleWaterfallChartSchema
                     else simplePieChartSchema)"
    "classified = calls @ [ResponsesCreate (classifyRequest q data)]"
    by blast+
  show "fst (generateAnalysis b env data q calls) =
            Inr (if chartType = ''waterfall_chart'' then waterfallFallback (length data)
                 else pieFallback (length data))"
    using generateAnalysis_exhausted [OF pre fails]
    by (simp add: fallbackResponse_cases)
qed

theorem flagged_interpretation_discarded_witness:
  "validateResponse engine errorRates = Inr errorRatesValidated
   \<and> structurallyValid errorRatesValidated
   \<and> retryLoop engine (scripted ''select 1'' twoRows ''pie_chart'' errorRatesText) ''pie_chart''
       simplePieChartSchema ''How many invoices?'' twoRows 0
       [ResponsesCreate (classifyRequest ''How many invoices?'' twoRows)] =
      (None, 3,
       [ResponsesCreate (classifyRequest ''How many invoices?'' twoRows),
        ResponsesCreate (shapeRequest ''pie_chart'' simplePieChartSchema ''How many invoices?'' twoRows 0),
        ResponsesCreate (shapeRequest ''pie_chart'' simplePieChartSchema ''How many invoices?'' twoRows 1),
        ResponsesCreate (shapeRequest ''pie_chart'' simplePieChartSchema ''How many invoices?'' twoRows 2)])
   \<and> fst (generateAnalysis engine (scripted ''select 1'' twoRows ''pie_chart'' errorRatesText)
            twoRows ''How many invoices?'' []) =
      Inr (pieFallback 2)"
proof -
  let ?env = "scripted ''select 1'' twoRows ''pie_chart'' errorRatesText"
  have rows: "twoRows \<noteq> []" and len: "length twoRows = 2" by (simp_all add: twoRows_def)
  have valid: "structurallyValid errorRatesValidated"
    by (simp add: structurallyValid_def statisticsType_def statisticsData_def sameLength_def
          errorRatesValidated_def)
  have fl: "flagged engine (responses_create ?env calls
                 (shapeRequest ''pie_chart'' simplePieChartSchema
                    ''How many invoices?'' twoRows n))" for calls n
    by (simp add: scripted_shape errorRates_flagged)
  from flagged_interpretation_discarded
         [where b = engine and env = ?env and chartType = "''pie_chart''"
            and schema = simplePieChartSchema and q = "''How many invoices?''"
            and data = twoRows and output_text = "''pie_chart''" and calls = "[]"
            and classified = "[ResponsesCreate (classifyRequest ''How many invoices?'' twoRows)]",
          THEN conjunct2]
  show ?thesis
    using rows valid fl by (simp add: scripted_classify lower_pie len validate_errorRates)
qed

text \<open>
  C10. Let a waterfall response with both arrays and at least two numeric values be
  accepted, that is, let the validator return a waterfall chart for it. Then the
  categories returned are the kept categories (those at the indices of the numeric
  values), rewritten: the first is \<^verbatim>\<open>Start\<close> if the
  first kept value is 0 and the first kept category does not mention "start" (the text
  does not occur in it in any case of letters), and is unchanged otherwise; the last is
  \<^verbatim>\<open>End\<close> if the last kept category mentions neither "end" nor "total", and is
  unchanged otherwise; those between are unchanged; and each of the three label texts that
  is absent (or otherwise falsy) in the response is set to its default. On categories
  written in ASCII this holds on every engine; on categories with characters outside ASCII
  it is stated of an engine whose Unicode lower case brings no letter of the three texts
  into a string or out of it (\<open>unicodeLowerCase\<close>). The accepted shape is thus not
  returned verbatim in general: \<open>balanceWaterfall\<close> comes back with two categories
  renamed and three texts added, while \<open>capitalsWaterfall\<close>, whose first category is
  RESTART and whose last is Grand TOTAL, keeps its categories.
\<close>

theorem waterfall_categories_rewritten:
  assumes "get_prop response ''statistics'' = stats"
    and "get_prop stats ''type'' = JStr ''waterfall_chart''"
    and "get_prop stats ''data'' = data"
    and "get_prop data ''categories'' = JArr cs"
    and "get_prop data ''values'' = JArr vs"
    and "2 \<le> length (numericIndices b vs)"
    and "validateResponse b response = Inr r"
    and "statisticsType r = JStr ''waterfall_chart''"
    and "unicodeLowerCase b ''start''"
    and "unicodeLowerCase b ''end''"
    and "unicodeLowerCase b ''total''"
  shows "\<exists>renamed.
      get_prop (statisticsData r) ''categories'' = JArr renamed
    \<and> get_prop (statisticsData r) ''values'' = JArr (map JNum (keptValues b vs))
    \<and> length renamed = length (numericIndices b vs)
    \<and> renamed ! 0 =
        (if keptValues b vs ! 0 = Finite 0
            \<and> \<not> mentions (keptCategories b cs vs ! 0) ''start''
         then JStr ''Start'' else keptCategories b cs vs ! 0)
    \<and> renamed ! (length (numericIndices b vs) - 1) =
        (if \<not> mentions (keptCategories b cs vs
                            ! (length (numericIndices b vs) - 1)) ''end''
            \<and> \<not> mentions (keptCategories b cs vs
                            ! (length (numericIndices b vs) - 1)) ''total''
         then JStr ''End''
         else keptCategories b cs vs ! (length (numericIndices b vs) - 1))
    \<and> (\<forall>j. 0 < j \<and> j < length (numericIndices b vs) - 1 \<longrightarrow>
           renamed ! j = keptCategories b cs vs ! j)
    \<and> (\<not> truthy (get_prop data ''increaseLabelText'') \<longrightarrow>
           get_prop (statisticsData r) ''increaseLabelText'' = JStr ''Increase'')
    \<and> (\<not> truthy (get_prop data ''decreaseLabelText'') \<longrightarrow>
           get_prop (statisticsData r) ''decreaseLabelText'' = JStr ''Decrease'')
    \<and> (\<not> truthy (get_prop data ''totalLabelText'') \<longrightarrow>
           get_prop (statisticsData r) ''totalLabelText'' = JStr ''Total'')"
proof -
  let ?kept = "keepCategories cs (numericIndices b vs)"
  let ?n = "length (numericIndices b vs)"
  have len: "length ?kept = ?n" by (simp add: keepCategories_def)
  have two: "2 \<le> length ?kept" using assms(6) by (simp add: len)
  have nonempty: "keptValues b vs \<noteq> []" using assms(6) by (auto simp: keptValues_def)
  have same_kept: "keptCategories b cs vs = ?kept"
    by (simp add: keptCategories_def keepCategories_def index_def Let_def)
  have start: "containsText b c ''start'' = mentions c ''start''" for c
    by (rule containsText_mentions [OF _ assms(9)]) simp
  have "end": "containsText b c ''end'' = mentions c ''end''" for c
    by (rule containsText_mentions [OF _ assms(10)]) simp
  have total: "containsText b c ''total'' = mentions c ''total''" for c
    by (rule containsText_mentions [OF _ assms(11)]) simp
  have nothrow: "\<not> list_ex (throws b) vs"
  proof
    assume "list_ex (throws b) vs"
    then obtain e where "validateResponse b response =
        Inr (createErrorResponse (''Validation error: '' @ err_message e))"
      using validateResponse_coercion_throws [OF assms(1) _ assms(3,5), of cs b] assms(2,4)
      by blast
    with assms(7,8) show False by (auto simp: error_response_type)
  qed
  have norel: "\<not> relabelThrows ?kept (keptValues b vs)"
  proof
    assume "relabelThrows ?kept (keptValues b vs)"
    then obtain e where "ensureStartEnd b ?kept (keptValues b vs) = Inl e"
      using ensureStartEnd_throws [OF two] by blast
    then have "validateResponse b response =
        Inr (createErrorResponse (''Validation error: '' @ err_message e))"
      using validateResponse_waterfall [OF assms(1-5) nothrow] assms(6)
      by (simp add: keptValues_def)
    with assms(7,8) show False by (auto simp: error_response_type)
  qed
  obtain renamed where ren: "ensureStartEnd b ?kept (keptValues b vs) = Inr renamed"
    and rlen: "length renamed = length ?kept"
    and first: "renamed ! 0 =
         (if take 1 (keptValues b vs) = [Finite 0] \<and> \<not> mentions (?kept ! 0) ''start''
          then JStr ''Start'' else ?kept ! 0)"
    and last: "renamed ! (length ?kept - 1) =
         (if \<not> mentions (?kept ! (length ?kept - 1)) ''end''
             \<and> \<not> mentions (?kept ! (length ?kept - 1)) ''total''
          then JStr ''End'' else ?kept ! (length ?kept - 1))"
    and middle: "\<forall>j. 0 < j \<and> j < length ?kept - 1 \<longrightarrow> renamed ! j = ?kept ! j"
    using ensureStartEnd_renames [OF two norel, of b] unfolding start "end" total by blast
  obtain r' where r': "validateResponse b response = Inr r'"
    and cats: "get_prop (statisticsData r') ''categories'' = JArr renamed"
    and vals: "get_prop (statisticsData r') ''values'' = JArr (map JNum (keptValues b vs))"
    and inc: "get_prop (statisticsData r') ''increaseLabelText'' =
         (if truthy (get_prop data ''increaseLabelText'') then get_prop data ''increaseLabelText''
          else JStr ''Increase'')"
    and dec: "get_prop (statisticsData r') ''decreaseLabelText'' =
         (if truthy (get_prop data ''decreaseLabelText'') then get_prop data ''decreaseLabelText''
          else JStr ''Decrease'')"
    and tot: "get_prop (statisticsData r') ''totalLabelText'' =
         (if truthy (get_prop data ''totalLabelText'') then get_prop data ''totalLabelText''
          else JStr ''Total'')"
    using waterfall_pairs_kept [OF assms(1-5) nothrow assms(6) ren] by blast
  from r' assms(7) have same: "r' = r" by simp
  show ?thesis
    using cats vals rlen first last middle inc dec tot
    unfolding same same_kept len take_one_nth [OF nonempty]
    by (intro exI [of _ renamed]) simp
qed

theorem waterfall_categories_rewritten_witness:
  "validateResponse engine balanceWaterfall = Inr balanceValidated
   \<and> (\<exists>renamed. get_prop (statisticsData balanceValidated) ''categories'' = JArr renamed
         \<and> length renamed = 3
         \<and> renamed ! 0 = JStr ''Start''
         \<and> renamed ! 1 = JStr ''Sales''
         \<and> renamed ! 2 = JStr ''End'')
   \<and> get_prop (statisticsData balanceValidated) ''increaseLabelText'' = JStr ''Increase''
   \<and> get_prop (statisticsData balanceValidated) ''decreaseLabelText'' = JStr ''Decrease''
   \<and> get_prop (statisticsData balanceValidated) ''totalLabelText'' = JStr ''Total''
   \<and> balanceValidated \<noteq> balanceWaterfall
   \<and> validateResponse engine capitalsWaterfall = Inr capitalsValidated
   \<and> mentions (JStr ''RESTART'') ''start''
   \<and> mentions (JStr ''Grand TOTAL'') ''total''
   \<and> (\<exists>renamed. get_prop (statisticsData capitalsValidated) ''categories'' = JArr renamed
         \<and> length renamed = 3
         \<and> renamed ! 0 = JStr ''RESTART''
         \<and> renamed ! 1 = JStr ''Sales''
         \<and> renamed ! 2 = JStr ''Grand TOTAL'')"
proof -
  let ?vs = "[JNum (Finite 0), JNum (Finite 40), JNum (Finite 40)]"
  let ?cs = "[JStr ''Opening balance'', JStr ''Sales'', JStr ''Closing balance'']"
  let ?data = "JObj [(''categories'', JArr ?cs), (''values'', JArr ?vs)]"
  let ?stats = "JObj [(''type'', JStr ''waterfall_chart''), (''data'', ?data)]"
  let ?caps = "[JStr ''RESTART'', JStr ''Sales'', JStr ''Grand TOTAL'']"
  let ?capsData = "JObj [(''categories'', JArr ?caps), (''values'', JArr ?vs)]"
  let ?capsStats = "JObj [(''type'', JStr ''waterfall_chart''), (''data'', ?capsData)]"
  have idx: "numericIndices engine ?vs = [0, 1, 2]"
    by (simp add: numericIndices_Cons numericIndices_Nil coerces_def Number_def)
  have vals: "keptValues engine ?vs = [Finite 0, Finite 40, Finite 40]"
    by (simp add: keptValues_def idx coerced_def Number_def)
  have kept: "keptCategories engine ?cs ?vs = ?cs"
    by (simp add: keptCategories_def idx)
  have keptCaps: "keptCategories engine ?caps ?vs = ?caps"
    by (simp add: keptCategories_def idx)
  have first: "\<not> mentions (JStr ''Opening balance'') ''start''"
    by (simp add: mentions_def upper_char_def)
  have last: "\<not> mentions (JStr ''Closing balance'') ''end''"
    "\<not> mentions (JStr ''Closing balance'') ''total''"
    by (simp_all add: mentions_def upper_char_def)
  have firstCaps: "mentions (JStr ''RESTART'') ''start''"
    by (simp add: mentions_def upper_char_def)
  have lastCaps: "mentions (JStr ''Grand TOTAL'') ''total''"
    by (simp add: mentions_def upper_char_def)
  have tables: "unicodeLowerCase engine ''start''" "unicodeLowerCase engine ''end''"
    "unicodeLowerCase engine ''total''"
    by (rule engine_unicodeLowerCase, simp)+
  have ty: "statisticsType balanceValidated = JStr ''waterfall_chart''"
    by (simp add: statisticsType_def balanceValidated_def)
  have tyCaps: "statisticsType capitalsValidated = JStr ''waterfall_chart''"
    by (simp add: statisticsType_def capitalsValidated_def)
  have "get_prop balanceWaterfall ''statistics'' = ?stats"
    "get_prop ?stats ''type'' = JStr ''waterfall_chart''"
    "get_prop ?stats ''data'' = ?data"
    "get_prop ?data ''categories'' = JArr ?cs"
    "get_prop ?data ''values'' = JArr ?vs"
    "2 \<le> length (numericIndices engine ?vs)"
    by (simp_all add: balanceWaterfall_def idx)
  note rewritten = waterfall_categories_rewritten
                     [OF this validate_balance ty tables, unfolded idx vals kept]
  have "get_prop capitalsWaterfall ''statistics'' = ?capsStats"
    "get_prop ?capsStats ''type'' = JStr ''waterfall_chart''"
    "get_prop ?capsStats ''data'' = ?capsData"
    "get_prop ?capsData ''categories'' = JArr ?caps"
    "get_prop ?capsData ''values'' = JArr ?vs"
    "2 \<le> length (numericIndices engine ?vs)"
    by (simp_all add: capitalsWaterfall_def idx)
  note unchanged = waterfall_categories_rewritten
                     [OF this validate_capitals tyCaps tables, unfolded idx vals keptCaps]
  from rewritten first last
  have renamed: "\<exists>renamed. get_prop (statisticsData balanceValidated) ''categories'' = JArr renamed
         \<and> length renamed = 3
         \<and> renamed ! 0 = JStr ''Start''
         \<and> renamed ! 1 = JStr ''Sales''
         \<and> renamed ! 2 = JStr ''End''"
    apply (elim exE conjE)
    subgoal for renamed
      apply (rule exI [of _ renamed])
      apply (drule spec [of _ 1])
      apply (simp add: numeral_2_eq_2)
      done
    done
  from unchanged firstCaps lastCaps
  have capitals: "\<exists>renamed. get_prop (statisticsData capitalsValidated) ''categories'' = JArr renamed
         \<and> length renamed = 3
         \<and> renamed ! 0 = JStr ''RESTART''
         \<and> renamed ! 1 = JStr ''Sales''
         \<and> renamed ! 2 = JStr ''Grand TOTAL''"
    apply (elim exE conjE)
    subgoal for renamed
      apply (rule exI [of _ renamed])
      apply (drule spec [of _ 1])
      apply (simp add: numeral_2_eq_2)
      done
    done
  from rewritten
  have texts: "get_prop (statisticsData balanceValidated) ''increaseLabelText'' = JStr ''Increase''"
    "get_prop (statisticsData balanceValidated) ''decreaseLabelText'' = JStr ''Decrease''"
    "get_prop (statisticsData balanceValidated) ''totalLabelText'' = JStr ''Total''"
    by auto
  have differ: "balanceValidated \<noteq> balanceWaterfall"
    by (simp add: balanceValidated_def balanceWaterfall_def)
  show ?thesis
    by (intro conjI)
       (fact validate_balance, fact renamed, fact texts(1), fact texts(2), fact texts(3),
        fact differ, fact validate_capitals, fact firstCaps, fact lastCaps, fact capitals)
qed

end
